theory Spec2Isabelle
  imports Complex_Main
begin

section \<open>The particle sketch of \<open>src/components/BackgroundP5/index.tsx\<close>\<close>

text \<open>
  The sketch keeps a grid of particles (class \<open>Entity\<close>), each holding three
  \<open>p5.Vector\<close> objects that the methods mutate in place. The vectors therefore live in
  an explicit store, addressed by references, and every function that allocates or
  mutates a vector takes the store and returns the new one.

  JavaScript numbers are modelled as real numbers: arithmetic is exact, there is no
  rounding, no overflow and no \<open>NaN\<close>. \<open>Math.sqrt\<close> is \<open>sqrt\<close>, \<open>Math.pow\<close> on a
  non-negative base is \<open>powr\<close>, \<open>Math.max\<close> is \<open>max\<close>, \<open>Math.abs\<close> is \<open>abs\<close>.
  Where the source divides by a distance that is zero the program produces \<open>NaN\<close>;
  the value the model has there is not the program's, and no theorem below rests on it.
\<close>

subsection \<open>Settings\<close>

record Settings =
  fps :: nat
  dotColor :: string
  dotSize :: real
  maxGravForce :: real
  maxEllasticForce :: real
  columns :: nat
  columnGap :: real
  rows :: nat
  rowGap :: real

definition settings :: Settings where
  "settings =
     \<lparr>fps = 60, dotColor = ''#bab6ab'', dotSize = 4, maxGravForce = 12,
      maxEllasticForce = 20, columns = 80, columnGap = 10, rows = 40, rowGap = 10\<rparr>"

subsection \<open>Vectors and the store\<close>

text \<open>
  A \<open>p5.Vector\<close> as the sketch uses it: the components \<open>x\<close> and \<open>y\<close> (the third
  component, which \<open>createVector(x, y)\<close> sets to 0 and nothing here changes, is left
  out). The fields are named \<open>vec_x\<close> and \<open>vec_y\<close>.
\<close>

record Vector =
  vec_x :: real
  vec_y :: real

type_synonym ref = nat

record Heap =
  cells :: "ref \<Rightarrow> Vector"
  fresh :: ref

text \<open>\<open>p.createVector(a, b)\<close>: a new object, distinct from every allocated one.\<close>

definition createVector :: "real \<Rightarrow> real \<Rightarrow> Heap \<Rightarrow> ref \<times> Heap" where
  "createVector a b h =
     (fresh h,
      \<lparr>cells = (cells h)(fresh h := \<lparr>vec_x = a, vec_y = b\<rparr>), fresh = Suc (fresh h)\<rparr>)"

text \<open>The vector a call returned, read in the store the call returned.\<close>

definition deref :: "ref \<times> Heap \<Rightarrow> Vector" where
  "deref rh = cells (snd rh) (fst rh)"

text \<open>\<open>this.add(v)\<close>, \<open>this.mult(n)\<close> and \<open>this.dist(v)\<close> of \<open>p5.Vector\<close>.\<close>

definition Vector_add :: "ref \<Rightarrow> ref \<Rightarrow> Heap \<Rightarrow> Heap" where
  "Vector_add this v h =
     h\<lparr>cells := (cells h)(this :=
        \<lparr>vec_x = vec_x (cells h this) + vec_x (cells h v),
         vec_y = vec_y (cells h this) + vec_y (cells h v)\<rparr>)\<rparr>"

definition Vector_mult :: "ref \<Rightarrow> real \<Rightarrow> Heap \<Rightarrow> Heap" where
  "Vector_mult this n h =
     h\<lparr>cells := (cells h)(this :=
        \<lparr>vec_x = vec_x (cells h this) * n, vec_y = vec_y (cells h this) * n\<rparr>)\<rparr>"

definition Vector_dist :: "ref \<Rightarrow> ref \<Rightarrow> Heap \<Rightarrow> real" where
  "Vector_dist this v h =
     sqrt ((vec_x (cells h v) - vec_x (cells h this)) * (vec_x (cells h v) - vec_x (cells h this))
         + (vec_y (cells h v) - vec_y (cells h this)) * (vec_y (cells h v) - vec_y (cells h this)))"

text \<open>The length of a vector (\<open>p5.Vector.mag\<close>), used to state how a velocity shrinks.\<close>

definition mag :: "Vector \<Rightarrow> real" where
  "mag v = sqrt (vec_x v * vec_x v + vec_y v * vec_y v)"

subsection \<open>clamp\<close>

text \<open>
  Modelled from the spec: \<open>clamp\<close> is imported from \<open>@/lib/utils\<close>, a file of the
  repository that is not among the sources. The spec says of its uses that each axis
  component is clamped to \<open>[-max, +max]\<close> and that the mouse damping factor is
  \<open>clamp(0.05 * distance, 0, 1)\<close>: the value, cut off at the lower and at the upper bound.
\<close>

definition clamp :: "real \<Rightarrow> real \<Rightarrow> real \<Rightarrow> real" where
  "clamp v lo hi = min (max v lo) hi"

subsection \<open>The force model\<close>

definition calculateGravity :: "Settings \<Rightarrow> ref \<Rightarrow> ref \<Rightarrow> Heap \<Rightarrow> ref \<times> Heap" where
  "calculateGravity cfg point1 point2 h =
     (let G = 1000;
          m1 = 1;
          m2 = 1;
          dx = vec_x (cells h point2) - vec_x (cells h point1);
          dy = vec_y (cells h point2) - vec_y (cells h point1);
          distance = sqrt (dx * dx + dy * dy);
          forceMagnitude = G * m1 * m2 / (distance powr 1.05);
          ux = dx / distance;
          uy = dy / distance;
          fx = clamp (forceMagnitude * ux) (- maxGravForce cfg) (maxGravForce cfg);
          fy = clamp (forceMagnitude * uy) (- maxGravForce cfg) (maxGravForce cfg)
      in createVector fx fy h)"

definition calculateElasticity :: "Settings \<Rightarrow> ref \<Rightarrow> ref \<Rightarrow> Heap \<Rightarrow> ref \<times> Heap" where
  "calculateElasticity cfg point1 point2 h =
     (let dx = vec_x (cells h point2) - vec_x (cells h point1);
          dy = vec_y (cells h point2) - vec_y (cells h point1);
          distance = sqrt (dx * dx + dy * dy);
          forceMagnitude =
            (if distance \<le> 2.62 then \<bar>distance\<bar>
             else 1.7 powr (0.5 * distance - 2) + 2);
          ux = (if distance \<noteq> 0 then dx / distance else 0);
          uy = (if distance \<noteq> 0 then dy / distance else 0);
          fx = clamp (forceMagnitude * ux) (- maxEllasticForce cfg) (maxEllasticForce cfg);
          fy = clamp (forceMagnitude * uy) (- maxEllasticForce cfg) (maxEllasticForce cfg)
      in createVector fx fy h)"

subsection \<open>Entity\<close>

record Entity =
  position :: ref
  velocity :: ref
  anchor :: ref
  debug :: bool

text \<open>
  The constructor (\<open>Entity_new\<close>) reads the point it is given and allocates three
  vectors. The methods take the entity as \<open>this\<close> and return the store; none of them
  assigns to a field, so the entity itself is not returned.
\<close>

definition Entity_new :: "ref \<Rightarrow> bool \<Rightarrow> Heap \<Rightarrow> Entity \<times> Heap" where
  "Entity_new pos dbg h =
     (let (p, h1) = createVector (vec_x (cells h pos)) (vec_y (cells h pos)) h;
          (v, h2) = createVector 0 0 h1;
          (a, h3) = createVector (vec_x (cells h2 pos)) (vec_y (cells h2 pos)) h2
      in (\<lparr>position = p, velocity = v, anchor = a, debug = (dbg \<or> False)\<rparr>, h3))"

definition getPosition :: "Entity \<Rightarrow> ref" where
  "getPosition this = position this"

definition getAnchor :: "Entity \<Rightarrow> ref" where
  "getAnchor this = anchor this"

definition applyForce :: "Entity \<Rightarrow> ref \<Rightarrow> Heap \<Rightarrow> Heap" where
  "applyForce this force h = Vector_add (velocity this) force h"

definition applyAnchorDamping :: "Entity \<Rightarrow> Heap \<Rightarrow> Heap" where
  "applyAnchorDamping this h =
     (let point1 = position this;
          point2 = anchor this;
          minDistance = 8;
          safeDistance = max (Vector_dist point1 point2 h) minDistance;
          dampingStrength = 0.95;
          dampingFactor = dampingStrength powr safeDistance
      in Vector_mult (velocity this) dampingFactor h)"

definition applyMouseDamping :: "Entity \<Rightarrow> ref \<Rightarrow> Heap \<Rightarrow> Heap" where
  "applyMouseDamping this mousePoint h =
     (let point1 = position this;
          point2 = mousePoint;
          distance = Vector_dist point1 point2 h
      in if distance > 30 then h
         else (let dampingFactor = clamp (0.05 * distance + 0.0) 0 1
               in Vector_mult (velocity this) dampingFactor h))"

definition applyVelocity :: "Entity \<Rightarrow> Heap \<Rightarrow> Heap" where
  "applyVelocity this h = Vector_add (position this) (velocity this) h"

subsection \<open>The sketch\<close>

text \<open>
  The state of the sketch: the store; the array \<open>entities\<close>; the ellipses drawn since
  the canvas was last cleared, each as (x, y, width, height); and what the scheduling of
  frames and rebuilds depends on: the loop flag of p5, the number of animation-frame
  callbacks p5 has requested and the browser has not run yet, and whether the debounce
  timer of \<open>createEntitiesThrottled\<close> is running.
\<close>

record Sketch =
  heap :: Heap
  entities :: "Entity list"
  looping :: bool
  pending :: nat
  rebuildTimer :: bool
  canvas :: "(real \<times> real \<times> real \<times> real) list"

text \<open>
  What \<open>draw\<close> reads from p5 in a frame. The method \<open>show\<close> is \<open>show_entity\<close>
  and \<open>p.setup\<close> is \<open>p5_setup\<close> below (both names are Isabelle keywords); the
  stroke and fill styles that \<open>draw\<close> sets are not part of the state.
\<close>

record P5Env =
  mouseX :: real
  mouseY :: real
  windowWidth :: real
  windowHeight :: real

definition show_entity :: "Settings \<Rightarrow> Entity \<Rightarrow> Sketch \<Rightarrow> Sketch" where
  "show_entity cfg this s =
     s\<lparr>canvas := canvas s @
        [(vec_x (cells (heap s) (position this)), vec_y (cells (heap s) (position this)),
          dotSize cfg, dotSize cfg)]\<rparr>"

text \<open>The body of the inner loop of \<open>createEntities\<close>, for column \<open>i\<close> and row \<open>j\<close>.\<close>

definition createEntity :: "Settings \<Rightarrow> nat \<Rightarrow> nat \<Rightarrow> Sketch \<Rightarrow> Sketch" where
  "createEntity cfg i j s =
     (let gridWidth = real (columns cfg) * dotSize cfg + (real (columns cfg) - 1) * columnGap cfg;
          gridHeight = real (rows cfg) * dotSize cfg + (real (rows cfg) - 1) * rowGap cfg;
          x0 = real i * (dotSize cfg + columnGap cfg);
          y0 = real j * (dotSize cfg + rowGap cfg);
          x1 = x0 - gridWidth / 2;
          y1 = y0 - gridHeight / 2;
          (pt, h1) = createVector x1 y1 (heap s);
          (e, h2) = Entity_new pt (i = 0 \<and> j = 0) h1
      in s\<lparr>heap := h2, entities := entities s @ [e]\<rparr>)"

definition createEntities :: "Settings \<Rightarrow> Sketch \<Rightarrow> Sketch" where
  "createEntities cfg s =
     fold (\<lambda>i. fold (\<lambda>j. createEntity cfg i j) [0..<rows cfg]) [0..<columns cfg]
       (s\<lparr>entities := []\<rparr>)"

text \<open>The body of the loop of \<open>draw\<close>, for one entity of the array.\<close>

definition drawEntity :: "Settings \<Rightarrow> P5Env \<Rightarrow> Entity \<Rightarrow> Sketch \<Rightarrow> Sketch" where
  "drawEntity cfg env entity s =
     (let (mousePosition, h1) =
            (if mouseX env \<noteq> 0 \<and> mouseY env \<noteq> 0
             then (let (m, h') = createVector (mouseX env - windowWidth env / 2)
                                   (mouseY env - windowHeight env / 2) (heap s)
                   in (Some m, h'))
             else (None, heap s));
          h2 = (case mousePosition of
                  Some m \<Rightarrow>
                    (let (mouseForce, h') = calculateGravity cfg (getPosition entity) m h1
                     in applyForce entity mouseForce h')
                | None \<Rightarrow> h1);
          (anchorForce, h3) = calculateElasticity cfg (getPosition entity) (getAnchor entity) h2;
          h4 = applyForce entity anchorForce h3;
          h5 = applyAnchorDamping entity h4;
          h6 = (case mousePosition of
                  Some m \<Rightarrow> applyMouseDamping entity m h5
                | None \<Rightarrow> h5);
          h7 = applyVelocity entity h6
      in show_entity cfg entity (s\<lparr>heap := h7\<rparr>))"

text \<open>
  \<open>p.draw\<close>: clear the canvas, then the loop over \<open>entities\<close>. The loop body never
  assigns to the array, so the loop over its indices is a fold over its elements.
\<close>

definition draw :: "Settings \<Rightarrow> P5Env \<Rightarrow> Sketch \<Rightarrow> Sketch" where
  "draw cfg env s = fold (drawEntity cfg env) (entities s) (s\<lparr>canvas := []\<rparr>)"

text \<open>
  \<open>p.setup\<close> builds the grid. A new p5 instance has no vectors, no entities, and loops.
\<close>

definition initial :: Sketch where
  "initial =
     \<lparr>heap = \<lparr>cells = (\<lambda>_. \<lparr>vec_x = 0, vec_y = 0\<rparr>), fresh = 0\<rparr>,
      entities = [], looping = True, pending = 0, rebuildTimer = False, canvas = []\<rparr>"

definition p5_setup :: "Settings \<Rightarrow> Sketch \<Rightarrow> Sketch" where
  "p5_setup cfg s = createEntities cfg s"

subsection \<open>The scheduler of p5\<close>

text \<open>
  Modelled from the spec: when \<open>draw\<close> runs is decided by the frame scheduler of the p5
  library (\<open>noLoop\<close>, \<open>loop\<close>, \<open>redraw\<close>, \<open>resizeCanvas\<close> and its animation-frame
  callback), and the debounce is lodash's; neither is among the sources, which only call
  them. The spec says that the loop has the two states running and paused, that pause
  "only prevents the next frame from being scheduled" while a frame once started always
  completes, that pause when paused and resume when running are no-ops, and that a
  resize rebuilds the grid once after a quiet period. The functions below follow these
  words and the functions of p5 they describe:
  \<^item> \<open>noLoop()\<close> clears the loop flag and nothing else;
  \<^item> \<open>redraw()\<close> calls \<open>draw\<close>;
  \<^item> the animation-frame callback redraws when the loop flag is clear or the frame
    interval has elapsed, and requests the next callback only while the flag is set; so
    the callback that is pending when the flag is cleared still draws once;
  \<^item> \<open>loop()\<close> does nothing when the flag is set; otherwise it sets the flag and runs
    the callback's body at once;
  \<^item> \<open>resizeCanvas(w, h)\<close> redraws, whatever the flag;
  \<^item> the debounced function starts its timer when called, and runs
    \<open>createEntities\<close> when the timer fires.
  \<open>elapsed\<close> says whether the frame interval has elapsed, \<open>env\<close> is what \<open>draw\<close>
  would read.
\<close>

definition noLoop :: "Sketch \<Rightarrow> Sketch" where
  "noLoop s = s\<lparr>looping := False\<rparr>"

definition redraw :: "Settings \<Rightarrow> P5Env \<Rightarrow> Sketch \<Rightarrow> Sketch" where
  "redraw cfg env s = draw cfg env s"

definition frameCallback :: "Settings \<Rightarrow> bool \<Rightarrow> P5Env \<Rightarrow> Sketch \<Rightarrow> Sketch" where
  "frameCallback cfg elapsed env s =
     (let s1 = (if \<not> looping s \<or> elapsed then redraw cfg env s else s)
      in if looping s1 then s1\<lparr>pending := Suc (pending s1)\<rparr> else s1)"

definition loop :: "Settings \<Rightarrow> bool \<Rightarrow> P5Env \<Rightarrow> Sketch \<Rightarrow> Sketch" where
  "loop cfg elapsed env s =
     (if \<not> looping s then frameCallback cfg elapsed env (s\<lparr>looping := True\<rparr>) else s)"

definition resizeCanvas :: "Settings \<Rightarrow> P5Env \<Rightarrow> Sketch \<Rightarrow> Sketch" where
  "resizeCanvas cfg env s = redraw cfg env s"

text \<open>
  The sketch's own part: \<open>pauseFn\<close> and \<open>resumeFn\<close> as \<open>p.setup\<close> assigns them, and
  \<open>p.windowResized\<close>.
\<close>

definition pauseFn :: "Sketch \<Rightarrow> Sketch" where
  "pauseFn s = noLoop s"

definition resumeFn :: "Settings \<Rightarrow> bool \<Rightarrow> P5Env \<Rightarrow> Sketch \<Rightarrow> Sketch" where
  "resumeFn cfg elapsed env s = loop cfg elapsed env s"

definition windowResized :: "Settings \<Rightarrow> P5Env \<Rightarrow> Sketch \<Rightarrow> Sketch" where
  "windowResized cfg env s = (resizeCanvas cfg env s)\<lparr>rebuildTimer := True\<rparr>"

text \<open>
  What can happen to a sketch that has been set up: the browser runs a pending
  animation-frame callback, the component calls \<open>pauseFn\<close> or \<open>resumeFn\<close>, the window
  is resized, or the debounce timer fires. \<open>quiet\<close> are the events that are neither a
  resume nor caused by a resize.
\<close>

datatype Event = Frame bool P5Env | Pause | Resume bool P5Env | Resize P5Env | Rebuild

fun step :: "Settings \<Rightarrow> Event \<Rightarrow> Sketch \<Rightarrow> Sketch" where
  "step cfg (Frame elapsed env) s =
     (if pending s = 0 then s
      else frameCallback cfg elapsed env (s\<lparr>pending := pending s - 1\<rparr>))"
| "step cfg Pause s = pauseFn s"
| "step cfg (Resume elapsed env) s = resumeFn cfg elapsed env s"
| "step cfg (Resize env) s = windowResized cfg env s"
| "step cfg Rebuild s =
     (if rebuildTimer s then (createEntities cfg s)\<lparr>rebuildTimer := False\<rparr> else s)"

definition run :: "Settings \<Rightarrow> Event list \<Rightarrow> Sketch \<Rightarrow> Sketch" where
  "run cfg evs s = fold (step cfg) evs s"


subsection \<open>The grid and the wellformed sketches\<close>

text \<open>
  The point the loop body of \<open>createEntities\<close> computes for column \<open>i\<close> and row
  \<open>j\<close>; the anchors of a sketch, in the order of the array; and the sketches in which
  every entity's vectors are allocated and no anchor is an object that is also some
  entity's position or velocity.
\<close>

definition gridPoint :: "Settings \<Rightarrow> nat \<Rightarrow> nat \<Rightarrow> Vector" where
  "gridPoint cfg i j =
     \<lparr>vec_x = real i * (dotSize cfg + columnGap cfg)
               - (real (columns cfg) * dotSize cfg + (real (columns cfg) - 1) * columnGap cfg) / 2,
      vec_y = real j * (dotSize cfg + rowGap cfg)
               - (real (rows cfg) * dotSize cfg + (real (rows cfg) - 1) * rowGap cfg) / 2\<rparr>"

definition anchors :: "Sketch \<Rightarrow> Vector list" where
  "anchors s = map (\<lambda>e. cells (heap s) (anchor e)) (entities s)"

definition wellformed :: "Sketch \<Rightarrow> bool" where
  "wellformed s \<longleftrightarrow>
     (\<forall>e \<in> set (entities s).
        position e < fresh (heap s) \<and> velocity e < fresh (heap s) \<and> anchor e < fresh (heap s))
     \<and> (\<forall>e \<in> set (entities s). \<forall>e' \<in> set (entities s).
          anchor e \<noteq> position e' \<and> anchor e \<noteq> velocity e')"

text \<open>
  A sketch built on a store: it has allocated on top of it, has left its vectors as they
  were, and all its entities' positions and velocities are new. A reference untouched
  in a sketch: allocated, and no entity's position or velocity.
\<close>

definition built_on :: "Heap \<Rightarrow> Sketch \<Rightarrow> bool" where
  "built_on h0 t \<longleftrightarrow>
     fresh h0 \<le> fresh (heap t)
     \<and> (\<forall>r < fresh h0. cells (heap t) r = cells h0 r)
     \<and> (\<forall>e \<in> set (entities t). fresh h0 \<le> position e \<and> fresh h0 \<le> velocity e)"

definition untouched :: "ref \<Rightarrow> Sketch \<Rightarrow> bool" where
  "untouched r s \<longleftrightarrow>
     r < fresh (heap s) \<and> (\<forall>e \<in> set (entities s). r \<noteq> position e \<and> r \<noteq> velocity e)"

subsection \<open>The loop body with the pointer present\<close>

text \<open>
  The vector \<open>draw\<close> creates for the pointer, and the store after the gravity force
  towards it has been computed and applied to an entity: the first steps of the loop
  body when the pointer is present.
\<close>

definition mouseVector :: "P5Env \<Rightarrow> Heap \<Rightarrow> ref \<times> Heap" where
  "mouseVector env h =
     createVector (mouseX env - windowWidth env / 2) (mouseY env - windowHeight env / 2) h"

definition withGravity :: "Settings \<Rightarrow> P5Env \<Rightarrow> Entity \<Rightarrow> Heap \<Rightarrow> Heap" where
  "withGravity cfg env e h =
     applyForce e (fst (calculateGravity cfg (position e) (fst (mouseVector env h)) (snd (mouseVector env h))))
       (snd (calculateGravity cfg (position e) (fst (mouseVector env h)) (snd (mouseVector env h))))"

subsection \<open>Example stores and sketches\<close>

text \<open>The store that holds exactly the given vectors, at the references 0, 1, ...\<close>

definition heap_of :: "Vector list \<Rightarrow> Heap" where
  "heap_of vs =
     \<lparr>cells = (\<lambda>r. if r < length vs then vs ! r else \<lparr>vec_x = 0, vec_y = 0\<rparr>),
      fresh = length vs\<rparr>"


text \<open>
  A particle whose position, velocity and anchor are the first three vectors of the
  store, the running sketch that holds just this particle (one animation-frame callback
  is pending, as in every running sketch), and two pointer readings: one inside
  the window and one on its left edge.
\<close>

definition particle0 :: Entity where
  "particle0 = \<lparr>position = 0, velocity = 1, anchor = 2, debug = True\<rparr>"

definition sketch_of :: "Vector \<Rightarrow> Vector \<Rightarrow> Vector \<Rightarrow> Sketch" where
  "sketch_of p v a =
     \<lparr>heap = heap_of [p, v, a], entities = [particle0], looping = True, pending = 1,
      rebuildTimer = False, canvas = []\<rparr>"

definition env_inside :: P5Env where
  "env_inside = \<lparr>mouseX = 3, mouseY = 4, windowWidth = 100, windowHeight = 100\<rparr>"

definition env_edge :: P5Env where
  "env_edge = \<lparr>mouseX = 0, mouseY = 5, windowWidth = 100, windowHeight = 10\<rparr>"

section \<open>Properties\<close>

subsection \<open>Allocation\<close>

lemma createVector_fst [simp]: "fst (createVector a b h) = fresh h"
  by (simp add: createVector_def)

lemma createVector_fresh [simp]: "fresh (snd (createVector a b h)) = Suc (fresh h)"
  by (simp add: createVector_def)

lemma createVector_cells [simp]:
  "cells (snd (createVector a b h)) r =
     (if r = fresh h then \<lparr>vec_x = a, vec_y = b\<rparr> else cells h r)"
  by (simp add: createVector_def)

lemma deref_createVector [simp]: "deref (createVector a b h) = \<lparr>vec_x = a, vec_y = b\<rparr>"
  by (simp add: deref_def)

subsection \<open>Vectors, distances and clamping\<close>

lemma Vector_neq: "(a::Vector) \<noteq> b \<Longrightarrow> vec_x a \<noteq> vec_x b \<or> vec_y a \<noteq> vec_y b"
  by (cases a, cases b) auto

lemma Vector_dist_pos_iff:
  "0 < Vector_dist p q h \<longleftrightarrow> cells h p \<noteq> cells h q"
proof -
  have "0 < Vector_dist p q h \<longleftrightarrow>
          (vec_x (cells h q) - vec_x (cells h p) \<noteq> 0 \<or> vec_y (cells h q) - vec_y (cells h p) \<noteq> 0)"
    unfolding Vector_dist_def
    by (metis add_pos_nonneg add_nonneg_pos mult_eq_0_iff add_0 not_real_square_gt_zero real_sqrt_gt_0_iff zero_le_square less_irrefl)
  also have "\<dots> \<longleftrightarrow> cells h p \<noteq> cells h q"
    using Vector_neq [of "cells h p" "cells h q"] by auto
  finally show ?thesis .
qed

lemma clamp_bounds: "0 \<le> m \<Longrightarrow> - m \<le> clamp v (- m) m \<and> clamp v (- m) m \<le> m"
  by (simp add: clamp_def)

lemma abs_clamp: "0 \<le> m \<Longrightarrow> \<bar>clamp v (- m) m\<bar> = min \<bar>v\<bar> m"
  by (simp add: clamp_def min_def max_def abs_if)

lemma unit_direction:
  assumes "0 < sqrt (dx * dx + dy * dy)"
  shows "(dx / sqrt (dx * dx + dy * dy)) * (dx / sqrt (dx * dx + dy * dy))
       + (dy / sqrt (dx * dx + dy * dy)) * (dy / sqrt (dx * dx + dy * dy)) = 1"
proof -
  let ?d = "sqrt (dx * dx + dy * dy)"
  have nn: "0 \<le> dx * dx + dy * dy" by simp
  have sq: "?d * ?d = dx * dx + dy * dy"
    using nn by simp
  have "(dx / ?d) * (dx / ?d) + (dy / ?d) * (dy / ?d) = (dx * dx + dy * dy) / (?d * ?d)"
    by (simp only: times_divide_times_eq add_divide_distrib)
  also have "\<dots> = (?d * ?d) / (?d * ?d)" by (simp only: sq)
  also have "\<dots> = 1"
  proof (rule divide_self)
    show "?d * ?d \<noteq> 0" using assms by (metis less_irrefl mult_eq_0_iff)
  qed
  finally show ?thesis .
qed

lemma calculateGravity_deref:
  "deref (calculateGravity cfg p q h) =
     \<lparr>vec_x = clamp (1000 / (Vector_dist p q h powr 1.05)
                * ((vec_x (cells h q) - vec_x (cells h p)) / Vector_dist p q h))
               (- maxGravForce cfg) (maxGravForce cfg),
      vec_y = clamp (1000 / (Vector_dist p q h powr 1.05)
                * ((vec_y (cells h q) - vec_y (cells h p)) / Vector_dist p q h))
               (- maxGravForce cfg) (maxGravForce cfg)\<rparr>"
  by (simp add: calculateGravity_def Let_def Vector_dist_def)

lemma dist_scaled:
  assumes "0 \<le> t"
    and "vec_x (cells h q) = vec_x (cells h p) + t * (vec_x (cells h b) - vec_x (cells h p))"
    and "vec_y (cells h q) = vec_y (cells h p) + t * (vec_y (cells h b) - vec_y (cells h p))"
  shows "Vector_dist p q h = t * Vector_dist p b h"
proof -
  let ?dx = "vec_x (cells h b) - vec_x (cells h p)"
  let ?dy = "vec_y (cells h b) - vec_y (cells h p)"
  have ex: "vec_x (cells h q) - vec_x (cells h p) = t * ?dx"
    and ey: "vec_y (cells h q) - vec_y (cells h p) = t * ?dy"
    using assms(2,3) by simp_all
  have "(t * ?dx) * (t * ?dx) + (t * ?dy) * (t * ?dy) = (t * t) * (?dx * ?dx + ?dy * ?dy)"
    by (simp only: distrib_left mult_ac)
  then have "Vector_dist p q h = sqrt ((t * t) * (?dx * ?dx + ?dy * ?dy))"
    unfolding Vector_dist_def ex ey by simp
  also have "\<dots> = t * sqrt (?dx * ?dx + ?dy * ?dy)"
    using assms(1) by (simp add: real_sqrt_mult)
  finally show ?thesis by (simp add: Vector_dist_def)
qed

lemma gravity_component_mono:
  fixes d t c m :: real
  assumes d: "0 < d" and t: "1 \<le> t" and m: "0 \<le> m"
  shows "\<bar>clamp (1000 / ((t * d) powr 1.05) * (t * c / (t * d))) (- m) m\<bar>
       \<le> \<bar>clamp (1000 / (d powr 1.05) * (c / d)) (- m) m\<bar>"
proof -
  have tpos: "0 < t" using t by simp
  have le: "d powr 1.05 \<le> (t * d) powr 1.05"
    using d t by (intro powr_mono2) (auto simp: mult_le_cancel_right1)
  have pos: "0 < d powr 1.05" using d by simp
  have F: "1000 / ((t * d) powr 1.05) \<le> 1000 / (d powr 1.05)"
    using le pos by (simp add: frac_le)
  have Fnn: "0 \<le> 1000 / ((t * d) powr 1.05)" by simp
  have eq: "t * c / (t * d) = c / d" using tpos by simp
  have "\<bar>1000 / ((t * d) powr 1.05) * (c / d)\<bar> = (1000 / ((t * d) powr 1.05)) * \<bar>c / d\<bar>"
    using Fnn by (simp add: abs_mult)
  also have "\<dots> \<le> (1000 / (d powr 1.05)) * \<bar>c / d\<bar>"
    using F by (intro mult_right_mono) auto
  also have "\<dots> = \<bar>1000 / (d powr 1.05) * (c / d)\<bar>"
    by (simp add: abs_mult)
  finally have "\<bar>1000 / ((t * d) powr 1.05) * (c / d)\<bar> \<le> \<bar>1000 / (d powr 1.05) * (c / d)\<bar>" .
  then show ?thesis using m unfolding eq abs_clamp [OF m] by (simp add: min_def)
qed

lemma mag_mono:
  assumes "\<bar>vec_x u\<bar> \<le> \<bar>vec_x v\<bar>" "\<bar>vec_y u\<bar> \<le> \<bar>vec_y v\<bar>"
  shows "mag u \<le> mag v"
proof -
  have "vec_x u * vec_x u \<le> vec_x v * vec_x v" "vec_y u * vec_y u \<le> vec_y v * vec_y v"
    using assms by (simp_all add: abs_le_square_iff power2_eq_square)
  then show ?thesis by (simp add: mag_def add_mono)
qed

lemma gravity_magnitude_strict:
  fixes d t :: real
  assumes d: "0 < d" and t: "1 < t"
  shows "1000 / ((t * d) powr 1.05) < 1000 / (d powr 1.05)"
proof -
  have "d < t * d" using d t mult_strict_right_mono [of 1 t d] by simp
  then have "d powr 1.05 < (t * d) powr 1.05"
    using d by (intro powr_less_mono2) auto
  moreover have "0 < d powr 1.05" using d by simp
  ultimately show ?thesis by (simp add: frac_less2)
qed


lemma heap_of_cells [simp]:
  "cells (heap_of vs) r = (if r < length vs then vs ! r else \<lparr>vec_x = 0, vec_y = 0\<rparr>)"
  by (simp add: heap_of_def)

lemma heap_of_fresh [simp]: "fresh (heap_of vs) = length vs"
  by (simp add: heap_of_def)

lemma Vector_dist_horizontal:
  "vec_y (cells h p) = vec_y (cells h q) \<Longrightarrow>
     Vector_dist p q h = \<bar>vec_x (cells h q) - vec_x (cells h p)\<bar>"
  by (simp add: Vector_dist_def)

lemma Vector_mult_cells:
  "cells (Vector_mult r n h) r' =
     (if r' = r then \<lparr>vec_x = vec_x (cells h r) * n, vec_y = vec_y (cells h r) * n\<rparr>
      else cells h r')"
  by (simp add: Vector_mult_def)

lemma Vector_add_cells:
  "cells (Vector_add r v h) r' =
     (if r' = r then \<lparr>vec_x = vec_x (cells h r) + vec_x (cells h v),
                       vec_y = vec_y (cells h r) + vec_y (cells h v)\<rparr>
      else cells h r')"
  by (simp add: Vector_add_def)

subsection \<open>The constructor\<close>

text \<open>
  C10. Every particle is constructed at rest at its rest position: for a creation point
  that is an allocated vector, the new entity's position and its anchor both hold the
  point's coordinates and its velocity is (0, 0). The three vectors are new objects,
  distinct from each other, and the debug flag is the one given.
\<close>

theorem Entity_new_at_rest:
  assumes "pos < fresh h"
  shows "cells (snd (Entity_new pos dbg h)) (position (fst (Entity_new pos dbg h))) = cells h pos
       \<and> cells (snd (Entity_new pos dbg h)) (anchor (fst (Entity_new pos dbg h))) = cells h pos
       \<and> cells (snd (Entity_new pos dbg h)) (velocity (fst (Entity_new pos dbg h)))
           = \<lparr>vec_x = 0, vec_y = 0\<rparr>
       \<and> position (fst (Entity_new pos dbg h)) \<noteq> velocity (fst (Entity_new pos dbg h))
       \<and> position (fst (Entity_new pos dbg h)) \<noteq> anchor (fst (Entity_new pos dbg h))
       \<and> velocity (fst (Entity_new pos dbg h)) \<noteq> anchor (fst (Entity_new pos dbg h))
       \<and> debug (fst (Entity_new pos dbg h)) = dbg"
  using assms by (simp add: Entity_new_def Let_def split_beta)

theorem Entity_new_at_rest_witness:
  "(0::nat) < fresh (heap_of [\<lparr>vec_x = 3, vec_y = 4\<rparr>])
   \<and> cells (snd (Entity_new 0 True (heap_of [\<lparr>vec_x = 3, vec_y = 4\<rparr>])))
        (position (fst (Entity_new 0 True (heap_of [\<lparr>vec_x = 3, vec_y = 4\<rparr>]))))
       = \<lparr>vec_x = 3, vec_y = 4\<rparr>
   \<and> cells (snd (Entity_new 0 True (heap_of [\<lparr>vec_x = 3, vec_y = 4\<rparr>])))
        (anchor (fst (Entity_new 0 True (heap_of [\<lparr>vec_x = 3, vec_y = 4\<rparr>]))))
       = \<lparr>vec_x = 3, vec_y = 4\<rparr>
   \<and> cells (snd (Entity_new 0 True (heap_of [\<lparr>vec_x = 3, vec_y = 4\<rparr>])))
        (velocity (fst (Entity_new 0 True (heap_of [\<lparr>vec_x = 3, vec_y = 4\<rparr>]))))
       = \<lparr>vec_x = 0, vec_y = 0\<rparr>"
proof -
  have a: "(0::nat) < fresh (heap_of [\<lparr>vec_x = 3, vec_y = 4\<rparr>])"
    by (simp add: heap_of_def)
  have c: "cells (heap_of [\<lparr>vec_x = 3, vec_y = 4\<rparr>]) 0 = \<lparr>vec_x = 3, vec_y = 4\<rparr>"
    by (simp add: heap_of_def)
  show ?thesis
    using Entity_new_at_rest [OF a, of True] a unfolding c by blast
qed

subsection \<open>Gravity\<close>

text \<open>
  C1. For points a and b with a \<noteq> b (the vectors at \<open>point1\<close> and \<open>point2\<close>), with
  d the distance between them: d is positive; the force \<open>calculateGravity\<close> returns has
  the components of 1000 / d^1.05 times the direction (b - a) / d, each clamped to
  [-12, 12] on its own; that direction has length 1; so each component lies in
  [-12, 12]. Along a fixed direction the force decreases with the distance: for a point
  q on the ray from a through b at t times the distance of b, t \<ge> 1, each component of
  the force towards q is at most as large in absolute value as that towards b, and so is
  the length of the force (the clamped values cannot decrease strictly: both may sit at
  the bound), and the magnitude before clamping is strictly smaller when t > 1.
\<close>

theorem calculateGravity_contract:
  assumes ne: "cells h point1 \<noteq> cells h point2"
  shows "0 < Vector_dist point1 point2 h
       \<and> vec_x (deref (calculateGravity settings point1 point2 h)) =
           clamp (1000 / (Vector_dist point1 point2 h powr 1.05)
                    * ((vec_x (cells h point2) - vec_x (cells h point1)) / Vector_dist point1 point2 h))
                 (- 12) 12
       \<and> vec_y (deref (calculateGravity settings point1 point2 h)) =
           clamp (1000 / (Vector_dist point1 point2 h powr 1.05)
                    * ((vec_y (cells h point2) - vec_y (cells h point1)) / Vector_dist point1 point2 h))
                 (- 12) 12
       \<and> mag \<lparr>vec_x = (vec_x (cells h point2) - vec_x (cells h point1)) / Vector_dist point1 point2 h,
               vec_y = (vec_y (cells h point2) - vec_y (cells h point1)) / Vector_dist point1 point2 h\<rparr> = 1
       \<and> - 12 \<le> vec_x (deref (calculateGravity settings point1 point2 h))
       \<and> vec_x (deref (calculateGravity settings point1 point2 h)) \<le> 12
       \<and> - 12 \<le> vec_y (deref (calculateGravity settings point1 point2 h))
       \<and> vec_y (deref (calculateGravity settings point1 point2 h)) \<le> 12
       \<and> (1 \<le> t
            \<and> vec_x (cells h q) = vec_x (cells h point1) + t * (vec_x (cells h point2) - vec_x (cells h point1))
            \<and> vec_y (cells h q) = vec_y (cells h point1) + t * (vec_y (cells h point2) - vec_y (cells h point1))
          \<longrightarrow> Vector_dist point1 q h = t * Vector_dist point1 point2 h
            \<and> \<bar>vec_x (deref (calculateGravity settings point1 q h))\<bar>
                \<le> \<bar>vec_x (deref (calculateGravity settings point1 point2 h))\<bar>
            \<and> \<bar>vec_y (deref (calculateGravity settings point1 q h))\<bar>
                \<le> \<bar>vec_y (deref (calculateGravity settings point1 point2 h))\<bar>
            \<and> mag (deref (calculateGravity settings point1 q h))
                \<le> mag (deref (calculateGravity settings point1 point2 h))
            \<and> (1 < t \<longrightarrow> 1000 / (Vector_dist point1 q h powr 1.05)
                             < 1000 / (Vector_dist point1 point2 h powr 1.05)))"
proof -
  let ?d = "Vector_dist point1 point2 h"
  let ?dx = "vec_x (cells h point2) - vec_x (cells h point1)"
  let ?dy = "vec_y (cells h point2) - vec_y (cells h point1)"
  have d: "0 < ?d" using ne by (simp add: Vector_dist_pos_iff)
  have m: "maxGravForce settings = 12" by (simp add: settings_def)
  have fx: "vec_x (deref (calculateGravity settings point1 point2 h)) =
              clamp (1000 / (?d powr 1.05) * (?dx / ?d)) (- 12) 12"
    and fy: "vec_y (deref (calculateGravity settings point1 point2 h)) =
              clamp (1000 / (?d powr 1.05) * (?dy / ?d)) (- 12) 12"
    by (simp_all add: calculateGravity_deref m)
  have unit: "mag \<lparr>vec_x = ?dx / ?d, vec_y = ?dy / ?d\<rparr> = 1"
    using unit_direction [of ?dx ?dy] d by (simp add: mag_def Vector_dist_def)
  have bx: "- 12 \<le> clamp v (- 12) 12 \<and> clamp v (- 12) 12 \<le> 12" for v
    using clamp_bounds [of 12 v] by simp
  have mono: "Vector_dist point1 q h = t * ?d
       \<and> \<bar>vec_x (deref (calculateGravity settings point1 q h))\<bar>
           \<le> \<bar>vec_x (deref (calculateGravity settings point1 point2 h))\<bar>
       \<and> \<bar>vec_y (deref (calculateGravity settings point1 q h))\<bar>
           \<le> \<bar>vec_y (deref (calculateGravity settings point1 point2 h))\<bar>
       \<and> mag (deref (calculateGravity settings point1 q h))
           \<le> mag (deref (calculateGravity settings point1 point2 h))
       \<and> (1 < t \<longrightarrow> 1000 / (Vector_dist point1 q h powr 1.05) < 1000 / (?d powr 1.05))"
    if t: "1 \<le> t"
      and qx: "vec_x (cells h q) = vec_x (cells h point1) + t * ?dx"
      and qy: "vec_y (cells h q) = vec_y (cells h point1) + t * ?dy"
  proof -
    have dq: "Vector_dist point1 q h = t * ?d"
      using dist_scaled [of t h q point1 point2] t qx qy by simp
    have ex: "vec_x (cells h q) - vec_x (cells h point1) = t * ?dx"
      and ey: "vec_y (cells h q) - vec_y (cells h point1) = t * ?dy"
      using qx qy by simp_all
    have gx: "vec_x (deref (calculateGravity settings point1 q h)) =
                clamp (1000 / ((t * ?d) powr 1.05) * (t * ?dx / (t * ?d))) (- 12) 12"
      and gy: "vec_y (deref (calculateGravity settings point1 q h)) =
                clamp (1000 / ((t * ?d) powr 1.05) * (t * ?dy / (t * ?d))) (- 12) 12"
      by (simp_all only: calculateGravity_deref m dq ex ey Vector.simps)
    have cx: "\<bar>vec_x (deref (calculateGravity settings point1 q h))\<bar>
                \<le> \<bar>vec_x (deref (calculateGravity settings point1 point2 h))\<bar>"
      unfolding gx fx using gravity_component_mono [OF d t, of 12 ?dx] by simp
    have cy: "\<bar>vec_y (deref (calculateGravity settings point1 q h))\<bar>
                \<le> \<bar>vec_y (deref (calculateGravity settings point1 point2 h))\<bar>"
      unfolding gy fy using gravity_component_mono [OF d t, of 12 ?dy] by simp
    have st: "1 < t \<longrightarrow> 1000 / (Vector_dist point1 q h powr 1.05) < 1000 / (?d powr 1.05)"
      unfolding dq using gravity_magnitude_strict [OF d] by blast
    have mg: "mag (deref (calculateGravity settings point1 q h))
                \<le> mag (deref (calculateGravity settings point1 point2 h))"
      using cx cy by (rule mag_mono)
    show ?thesis using dq cx cy mg st by blast
  qed
  have b1: "- 12 \<le> vec_x (deref (calculateGravity settings point1 point2 h))"
    and b2: "vec_x (deref (calculateGravity settings point1 point2 h)) \<le> 12"
    and b3: "- 12 \<le> vec_y (deref (calculateGravity settings point1 point2 h))"
    and b4: "vec_y (deref (calculateGravity settings point1 point2 h)) \<le> 12"
    unfolding fx fy using bx by blast+
  show ?thesis
    using d fx fy unit b1 b2 b3 b4 mono by blast
qed

theorem calculateGravity_contract_witness:
  "cells (heap_of [\<lparr>vec_x = 0, vec_y = 0\<rparr>, \<lparr>vec_x = 3, vec_y = 4\<rparr>, \<lparr>vec_x = 6, vec_y = 8\<rparr>]) 0
     \<noteq> cells (heap_of [\<lparr>vec_x = 0, vec_y = 0\<rparr>, \<lparr>vec_x = 3, vec_y = 4\<rparr>, \<lparr>vec_x = 6, vec_y = 8\<rparr>]) 1
   \<and> (1::real) < 2
   \<and> - 12 \<le> vec_x (deref (calculateGravity settings 0 1
          (heap_of [\<lparr>vec_x = 0, vec_y = 0\<rparr>, \<lparr>vec_x = 3, vec_y = 4\<rparr>, \<lparr>vec_x = 6, vec_y = 8\<rparr>])))
   \<and> \<bar>vec_x (deref (calculateGravity settings 0 2
          (heap_of [\<lparr>vec_x = 0, vec_y = 0\<rparr>, \<lparr>vec_x = 3, vec_y = 4\<rparr>, \<lparr>vec_x = 6, vec_y = 8\<rparr>])))\<bar>
      \<le> \<bar>vec_x (deref (calculateGravity settings 0 1
          (heap_of [\<lparr>vec_x = 0, vec_y = 0\<rparr>, \<lparr>vec_x = 3, vec_y = 4\<rparr>, \<lparr>vec_x = 6, vec_y = 8\<rparr>])))\<bar>
   \<and> mag (deref (calculateGravity settings 0 2
          (heap_of [\<lparr>vec_x = 0, vec_y = 0\<rparr>, \<lparr>vec_x = 3, vec_y = 4\<rparr>, \<lparr>vec_x = 6, vec_y = 8\<rparr>])))
      \<le> mag (deref (calculateGravity settings 0 1
          (heap_of [\<lparr>vec_x = 0, vec_y = 0\<rparr>, \<lparr>vec_x = 3, vec_y = 4\<rparr>, \<lparr>vec_x = 6, vec_y = 8\<rparr>])))
   \<and> 1000 / (Vector_dist 0 2
          (heap_of [\<lparr>vec_x = 0, vec_y = 0\<rparr>, \<lparr>vec_x = 3, vec_y = 4\<rparr>, \<lparr>vec_x = 6, vec_y = 8\<rparr>]) powr 1.05)
      < 1000 / (Vector_dist 0 1
          (heap_of [\<lparr>vec_x = 0, vec_y = 0\<rparr>, \<lparr>vec_x = 3, vec_y = 4\<rparr>, \<lparr>vec_x = 6, vec_y = 8\<rparr>]) powr 1.05)"
proof -
  let ?h = "heap_of [\<lparr>vec_x = 0, vec_y = 0\<rparr>, \<lparr>vec_x = 3, vec_y = 4\<rparr>, \<lparr>vec_x = 6, vec_y = 8\<rparr>]"
  have ne: "cells ?h 0 \<noteq> cells ?h 1" by (simp add: heap_of_def)
  have q: "vec_x (cells ?h 2) = vec_x (cells ?h 0) + 2 * (vec_x (cells ?h 1) - vec_x (cells ?h 0))
         \<and> vec_y (cells ?h 2) = vec_y (cells ?h 0) + 2 * (vec_y (cells ?h 1) - vec_y (cells ?h 0))"
    by (simp add: heap_of_def)
  have t: "(1::real) \<le> 2" "(1::real) < 2" by simp_all
  show ?thesis
    using calculateGravity_contract [OF ne, where t = 2 and q = 2] ne q t by blast
qed

subsection \<open>Elasticity\<close>

lemma calculateElasticity_zero:
  assumes "cells h p = cells h q"
  shows "deref (calculateElasticity settings p q h) = \<lparr>vec_x = 0, vec_y = 0\<rparr>"
  using assms by (simp add: calculateElasticity_def Let_def clamp_def settings_def)

text \<open>
  C7. \<open>calculateElasticity(a, a)\<close> is the zero vector, for the same object given twice
  and for two objects with the same coordinates: the distance is 0, so the magnitude is 0
  and the source's guard makes the direction (0, 0) without dividing.
\<close>

theorem calculateElasticity_self:
  assumes "cells h point1 = cells h point2"
  shows "deref (calculateElasticity settings point1 point2 h) = \<lparr>vec_x = 0, vec_y = 0\<rparr>"
  using assms by (rule calculateElasticity_zero)

theorem calculateElasticity_self_witness:
  "cells (heap_of [\<lparr>vec_x = 1, vec_y = 2\<rparr>, \<lparr>vec_x = 1, vec_y = 2\<rparr>]) 0
     = cells (heap_of [\<lparr>vec_x = 1, vec_y = 2\<rparr>, \<lparr>vec_x = 1, vec_y = 2\<rparr>]) 1
   \<and> deref (calculateElasticity settings 0 1
         (heap_of [\<lparr>vec_x = 1, vec_y = 2\<rparr>, \<lparr>vec_x = 1, vec_y = 2\<rparr>]))
       = \<lparr>vec_x = 0, vec_y = 0\<rparr>"
proof -
  have e: "cells (heap_of [\<lparr>vec_x = 1, vec_y = 2\<rparr>, \<lparr>vec_x = 1, vec_y = 2\<rparr>]) 0
         = cells (heap_of [\<lparr>vec_x = 1, vec_y = 2\<rparr>, \<lparr>vec_x = 1, vec_y = 2\<rparr>]) 1"
    by (simp add: heap_of_def)
  show ?thesis
    using calculateElasticity_self [OF e] e by blast
qed

lemma calculateElasticity_deref:
  "deref (calculateElasticity cfg p q h) =
     \<lparr>vec_x = clamp ((if Vector_dist p q h \<le> 2.62 then \<bar>Vector_dist p q h\<bar>
                      else 1.7 powr (0.5 * Vector_dist p q h - 2) + 2)
                * (if Vector_dist p q h \<noteq> 0
                   then (vec_x (cells h q) - vec_x (cells h p)) / Vector_dist p q h else 0))
               (- maxEllasticForce cfg) (maxEllasticForce cfg),
      vec_y = clamp ((if Vector_dist p q h \<le> 2.62 then \<bar>Vector_dist p q h\<bar>
                      else 1.7 powr (0.5 * Vector_dist p q h - 2) + 2)
                * (if Vector_dist p q h \<noteq> 0
                   then (vec_y (cells h q) - vec_y (cells h p)) / Vector_dist p q h else 0))
               (- maxEllasticForce cfg) (maxEllasticForce cfg)\<rparr>"
  by (simp add: calculateElasticity_def Let_def Vector_dist_def)

lemma exp_branch_at_boundary: "(0.69::real) < 1.7 powr (- 0.69)"
proof -
  have p: "(0::real) < 1.7 powr 0.69" by simp
  have "(1.7 powr 0.69) ^ 100 = (1.7::real) powr (0.69 * real 100)"
    by (simp only: powr_realpow [OF p, symmetric] powr_powr)
  also have "\<dots> = (1.7::real) powr 69" by simp
  also have "\<dots> = (1.7::real) ^ 69" by simp
  also have "\<dots> < (100 / 69) ^ 100" by (simp add: power_divide divide_simps)
  finally have "(1.7 powr 0.69) ^ 100 < ((100::real) / 69) ^ 100" .
  then have "(1.7::real) powr 0.69 < 100 / 69"
    by (rule power_less_imp_less_base) simp
  then have "(0.69::real) * (1.7 powr 0.69) < 1"
    by simp
  then have "(0.69::real) < 1 / (1.7 powr 0.69)"
    using p by (simp add: pos_less_divide_eq)
  also have "1 / (1.7 powr 0.69) = (1.7::real) powr (- 0.69)"
    by (simp add: powr_minus_divide)
  finally show ?thesis .
qed

text \<open>
  C4. The two branches of the magnitude law do not meet at 2.62. For the anchor at
  distance exactly 2.62 the source takes the linear branch and the force is 2.62; for
  the anchor at distance 2.63 it takes the exponential branch and the force is above
  2.69; and the exponential branch's formula at 2.62 itself, 1.7^(0.5 * 2.62 - 2) + 2, is
  above 2.69. The magnitude jumps by more than 0.07 at the boundary.
\<close>

theorem calculateElasticity_jump_at_boundary:
  "vec_x (deref (calculateElasticity settings 0 1
       (heap_of [\<lparr>vec_x = 0, vec_y = 0\<rparr>, \<lparr>vec_x = 2.62, vec_y = 0\<rparr>]))) = 2.62
   \<and> 2.69 < vec_x (deref (calculateElasticity settings 0 1
       (heap_of [\<lparr>vec_x = 0, vec_y = 0\<rparr>, \<lparr>vec_x = 2.63, vec_y = 0\<rparr>])))
   \<and> (2.69::real) < 1.7 powr (0.5 * 2.62 - 2) + 2"
proof -
  let ?h = "heap_of [\<lparr>vec_x = 0, vec_y = 0\<rparr>, \<lparr>vec_x = 2.62, vec_y = 0\<rparr>]"
  let ?k = "heap_of [\<lparr>vec_x = 0, vec_y = 0\<rparr>, \<lparr>vec_x = 2.63, vec_y = 0\<rparr>]"
  have dh: "Vector_dist 0 1 ?h = 2.62" and dk: "Vector_dist 0 1 ?k = 2.63"
    by (simp_all add: Vector_dist_horizontal)
  have m: "maxEllasticForce settings = 20" by (simp add: settings_def)
  have lin: "vec_x (deref (calculateElasticity settings 0 1 ?h)) = 2.62"
    by (simp only: calculateElasticity_deref dh m) (simp add: clamp_def)
  have lo: "(0.69::real) < 1.7 powr (0.5 * 2.63 - 2)"
  proof -
    have "(1.7::real) powr (- 0.69) \<le> 1.7 powr (0.5 * 2.63 - 2)"
      by (intro powr_mono) simp_all
    with exp_branch_at_boundary show ?thesis by (rule less_le_trans)
  qed
  have hi: "(1.7::real) powr (0.5 * 2.63 - 2) \<le> 1"
  proof -
    have "(1.7::real) powr (0.5 * 2.63 - 2) \<le> 1.7 powr 0"
      by (intro powr_mono) simp_all
    then show ?thesis by simp
  qed
  have "vec_x (deref (calculateElasticity settings 0 1 ?k))
          = clamp (1.7 powr (0.5 * 2.63 - 2) + 2) (- 20) 20"
    by (simp only: calculateElasticity_deref dk m) simp
  also have "\<dots> = 1.7 powr (0.5 * 2.63 - 2) + 2"
    using lo hi by (simp add: clamp_def)
  finally have ex: "2.69 < vec_x (deref (calculateElasticity settings 0 1 ?k))"
    using lo by simp
  have bd: "(2.69::real) < 1.7 powr (0.5 * 2.62 - 2) + 2"
    using exp_branch_at_boundary by simp
  show ?thesis using lin ex bd by blast
qed

subsection \<open>Anchor damping\<close>

lemma applyAnchorDamping_velocity:
  "cells (applyAnchorDamping e h) (velocity e) =
     \<lparr>vec_x = vec_x (cells h (velocity e)) * (0.95 powr max (Vector_dist (position e) (anchor e) h) 8),
      vec_y = vec_y (cells h (velocity e)) * (0.95 powr max (Vector_dist (position e) (anchor e) h) 8)\<rparr>"
  by (simp add: applyAnchorDamping_def Let_def Vector_mult_cells)

lemma anchor_factor_floor:
  "d \<le> 8 \<Longrightarrow> (0.95::real) powr max d 8 = 0.95 ^ 8"
  by (simp add: max_def)

lemma anchor_factor_antitone:
  fixes d1 d2 :: real
  assumes "d1 \<le> d2"
  shows "(0.95::real) powr max d2 8 \<le> 0.95 powr max d1 8"
  using assms by (intro powr_mono') auto

lemma anchor_factor_strict:
  fixes d1 d2 :: real
  assumes "8 \<le> d1" "d1 < d2"
  shows "(0.95::real) powr max d2 8 < 0.95 powr max d1 8"
proof -
  have "max d1 8 < max d2 8" using assms by simp
  then show ?thesis by (intro powr_less_mono') simp_all
qed


text \<open>
  C2. What \<open>applyAnchorDamping\<close> does to a velocity of (1, 0): for a particle at
  its anchor (distance 0, under the floor of 8) the velocity becomes 0.95^8, for a
  particle 20 away from its anchor it becomes 0.95^20, which is smaller. The factor
  shrinks towards 0 as the distance grows (\<open>anchor_factor_antitone\<close>): the damping
  is weakest at the anchor and strongest far away.
\<close>

theorem applyAnchorDamping_far_stronger:
  "vec_x (cells (applyAnchorDamping \<lparr>position = 0, velocity = 1, anchor = 2, debug = False\<rparr>
            (heap_of [\<lparr>vec_x = 0, vec_y = 0\<rparr>, \<lparr>vec_x = 1, vec_y = 0\<rparr>, \<lparr>vec_x = 0, vec_y = 0\<rparr>])) 1)
     = 0.95 ^ 8
   \<and> vec_x (cells (applyAnchorDamping \<lparr>position = 0, velocity = 1, anchor = 2, debug = False\<rparr>
            (heap_of [\<lparr>vec_x = 20, vec_y = 0\<rparr>, \<lparr>vec_x = 1, vec_y = 0\<rparr>, \<lparr>vec_x = 0, vec_y = 0\<rparr>])) 1)
     = 0.95 ^ 20
   \<and> (0.95::real) ^ 20 < 0.95 ^ 8"
proof -
  let ?e = "\<lparr>position = 0, velocity = 1, anchor = 2, debug = False\<rparr>"
  let ?near = "heap_of [\<lparr>vec_x = 0, vec_y = 0\<rparr>, \<lparr>vec_x = 1, vec_y = 0\<rparr>, \<lparr>vec_x = 0, vec_y = 0\<rparr>]"
  let ?far = "heap_of [\<lparr>vec_x = 20, vec_y = 0\<rparr>, \<lparr>vec_x = 1, vec_y = 0\<rparr>, \<lparr>vec_x = 0, vec_y = 0\<rparr>]"
  have dn: "Vector_dist 0 2 ?near = 0" by (simp add: Vector_dist_horizontal)
  have df: "Vector_dist 0 2 ?far = 20" by (simp add: Vector_dist_horizontal)
  have n: "vec_x (cells (applyAnchorDamping ?e ?near) 1) = 0.95 ^ 8"
    using applyAnchorDamping_velocity [of ?e ?near] by (simp add: dn)
  have f: "vec_x (cells (applyAnchorDamping ?e ?far) 1) = 0.95 ^ 20"
    using applyAnchorDamping_velocity [of ?e ?far] by (simp add: df)
  have "(0.95::real) ^ 20 < 0.95 ^ 8" by simp
  with n f show ?thesis by blast
qed


subsection \<open>Mouse damping\<close>

lemma mag_scale:
  "mag \<lparr>vec_x = vec_x v * c, vec_y = vec_y v * c\<rparr> = \<bar>c\<bar> * mag v"
proof -
  have "(vec_x v * c) * (vec_x v * c) + (vec_y v * c) * (vec_y v * c)
      = (c * c) * (vec_x v * vec_x v + vec_y v * vec_y v)"
    by (simp only: distrib_left mult_ac)
  then show ?thesis by (simp add: mag_def real_sqrt_mult)
qed

lemma mag_pos: "v \<noteq> \<lparr>vec_x = 0, vec_y = 0\<rparr> \<Longrightarrow> 0 < mag v"
proof -
  assume "v \<noteq> \<lparr>vec_x = 0, vec_y = 0\<rparr>"
  then have "vec_x v \<noteq> 0 \<or> vec_y v \<noteq> 0"
    using Vector_neq [of v "\<lparr>vec_x = 0, vec_y = 0\<rparr>"] by simp
  then have "0 < vec_x v * vec_x v + vec_y v * vec_y v"
    by (metis add_pos_nonneg add_nonneg_pos not_real_square_gt_zero zero_le_square)
  then show ?thesis by (simp add: mag_def)
qed

lemma applyMouseDamping_far:
  "30 < Vector_dist (position e) m h \<Longrightarrow> applyMouseDamping e m h = h"
  by (simp add: applyMouseDamping_def Let_def)

lemma applyMouseDamping_near:
  "Vector_dist (position e) m h \<le> 30 \<Longrightarrow>
     applyMouseDamping e m h
       = Vector_mult (velocity e) (clamp (0.05 * Vector_dist (position e) m h) 0 1) h"
  by (simp add: applyMouseDamping_def Let_def)

lemma Vector_dist_nonneg: "0 \<le> Vector_dist p q h"
  by (simp add: Vector_dist_def)


text \<open>
  C3, as the code has it. With d the distance from the particle to the pointer:
  for d > 30 \<open>applyMouseDamping\<close> returns the store unchanged; for d \<le> 30 it
  multiplies the velocity by clamp(0.05 * d, 0, 1) and changes no other vector; for
  d < 20 and a velocity that is not (0, 0) the length of the velocity strictly decreases;
  for d \<ge> 20 the velocity is unchanged.
\<close>

theorem applyMouseDamping_contract:
  "(30 < Vector_dist (position e) m h \<longrightarrow> applyMouseDamping e m h = h)
   \<and> (Vector_dist (position e) m h \<le> 30 \<longrightarrow>
        cells (applyMouseDamping e m h) (velocity e)
          = \<lparr>vec_x = vec_x (cells h (velocity e)) * clamp (0.05 * Vector_dist (position e) m h) 0 1,
             vec_y = vec_y (cells h (velocity e)) * clamp (0.05 * Vector_dist (position e) m h) 0 1\<rparr>
        \<and> (r \<noteq> velocity e \<longrightarrow> cells (applyMouseDamping e m h) r = cells h r)
        \<and> fresh (applyMouseDamping e m h) = fresh h)
   \<and> (Vector_dist (position e) m h < 20 \<and> cells h (velocity e) \<noteq> \<lparr>vec_x = 0, vec_y = 0\<rparr> \<longrightarrow>
        mag (cells (applyMouseDamping e m h) (velocity e)) < mag (cells h (velocity e)))
   \<and> (20 \<le> Vector_dist (position e) m h \<longrightarrow>
        cells (applyMouseDamping e m h) (velocity e) = cells h (velocity e))"
proof -
  let ?d = "Vector_dist (position e) m h"
  let ?v = "cells h (velocity e)"
  have far: "30 < ?d \<longrightarrow> applyMouseDamping e m h = h"
    by (simp add: applyMouseDamping_far)
  have near: "?d \<le> 30 \<longrightarrow>
        cells (applyMouseDamping e m h) (velocity e)
          = \<lparr>vec_x = vec_x ?v * clamp (0.05 * ?d) 0 1, vec_y = vec_y ?v * clamp (0.05 * ?d) 0 1\<rparr>
        \<and> (r \<noteq> velocity e \<longrightarrow> cells (applyMouseDamping e m h) r = cells h r)
        \<and> fresh (applyMouseDamping e m h) = fresh h"
    by (simp add: applyMouseDamping_near Vector_mult_cells) (simp add: Vector_mult_def)
  have strict: "mag (cells (applyMouseDamping e m h) (velocity e)) < mag ?v"
    if d: "?d < 20" and v: "?v \<noteq> \<lparr>vec_x = 0, vec_y = 0\<rparr>"
  proof -
    have c: "clamp (0.05 * ?d) 0 1 = 0.05 * ?d"
      using d Vector_dist_nonneg [of "position e" m h] by (simp add: clamp_def)
    have "?d \<le> 30" using d by simp
    with near have "cells (applyMouseDamping e m h) (velocity e)
            = \<lparr>vec_x = vec_x ?v * clamp (0.05 * ?d) 0 1, vec_y = vec_y ?v * clamp (0.05 * ?d) 0 1\<rparr>"
      by blast
    then have "cells (applyMouseDamping e m h) (velocity e)
            = \<lparr>vec_x = vec_x ?v * (0.05 * ?d), vec_y = vec_y ?v * (0.05 * ?d)\<rparr>"
      by (simp only: c)
    then have eq: "mag (cells (applyMouseDamping e m h) (velocity e)) = \<bar>0.05 * ?d\<bar> * mag ?v"
      by (simp only: mag_scale)
    have lt: "\<bar>0.05 * ?d\<bar> < 1"
      using d Vector_dist_nonneg [of "position e" m h] by simp
    have pos: "0 < mag ?v" using v by (rule mag_pos)
    have "\<bar>0.05 * ?d\<bar> * mag ?v < 1 * mag ?v"
      using lt pos by (rule mult_strict_right_mono)
    then show ?thesis by (simp only: eq mult_1)
  qed
  have same: "cells (applyMouseDamping e m h) (velocity e) = ?v" if d: "20 \<le> ?d"
  proof (cases "30 < ?d")
    case True
    then show ?thesis by (simp add: applyMouseDamping_far)
  next
    case False
    have c: "clamp (0.05 * ?d) 0 1 = 1" using d by (simp add: clamp_def)
    from False have "?d \<le> 30" by simp
    with near have "cells (applyMouseDamping e m h) (velocity e)
            = \<lparr>vec_x = vec_x ?v * clamp (0.05 * ?d) 0 1, vec_y = vec_y ?v * clamp (0.05 * ?d) 0 1\<rparr>"
      by blast
    then show ?thesis by (simp only: c mult_1_right Vector.surjective [symmetric] unit.exhaust) simp
  qed
  show ?thesis using far near strict same by blast
qed

theorem applyMouseDamping_contract_witness:
  "30 < Vector_dist 0 3 (heap_of [\<lparr>vec_x = 0, vec_y = 0\<rparr>, \<lparr>vec_x = 1, vec_y = 0\<rparr>,
          \<lparr>vec_x = 0, vec_y = 0\<rparr>, \<lparr>vec_x = 40, vec_y = 0\<rparr>])
   \<and> applyMouseDamping \<lparr>position = 0, velocity = 1, anchor = 2, debug = False\<rparr> 3
         (heap_of [\<lparr>vec_x = 0, vec_y = 0\<rparr>, \<lparr>vec_x = 1, vec_y = 0\<rparr>,
            \<lparr>vec_x = 0, vec_y = 0\<rparr>, \<lparr>vec_x = 40, vec_y = 0\<rparr>])
       = heap_of [\<lparr>vec_x = 0, vec_y = 0\<rparr>, \<lparr>vec_x = 1, vec_y = 0\<rparr>,
            \<lparr>vec_x = 0, vec_y = 0\<rparr>, \<lparr>vec_x = 40, vec_y = 0\<rparr>]
   \<and> Vector_dist 0 3 (heap_of [\<lparr>vec_x = 0, vec_y = 0\<rparr>, \<lparr>vec_x = 1, vec_y = 0\<rparr>,
          \<lparr>vec_x = 0, vec_y = 0\<rparr>, \<lparr>vec_x = 10, vec_y = 0\<rparr>]) < 20
   \<and> cells (heap_of [\<lparr>vec_x = 0, vec_y = 0\<rparr>, \<lparr>vec_x = 1, vec_y = 0\<rparr>,
          \<lparr>vec_x = 0, vec_y = 0\<rparr>, \<lparr>vec_x = 10, vec_y = 0\<rparr>]) 1 \<noteq> \<lparr>vec_x = 0, vec_y = 0\<rparr>
   \<and> mag (cells (applyMouseDamping \<lparr>position = 0, velocity = 1, anchor = 2, debug = False\<rparr> 3
          (heap_of [\<lparr>vec_x = 0, vec_y = 0\<rparr>, \<lparr>vec_x = 1, vec_y = 0\<rparr>,
             \<lparr>vec_x = 0, vec_y = 0\<rparr>, \<lparr>vec_x = 10, vec_y = 0\<rparr>])) 1)
       < mag (cells (heap_of [\<lparr>vec_x = 0, vec_y = 0\<rparr>, \<lparr>vec_x = 1, vec_y = 0\<rparr>,
             \<lparr>vec_x = 0, vec_y = 0\<rparr>, \<lparr>vec_x = 10, vec_y = 0\<rparr>]) 1)
   \<and> Vector_dist 0 3 (heap_of [\<lparr>vec_x = 0, vec_y = 0\<rparr>, \<lparr>vec_x = 1, vec_y = 0\<rparr>,
          \<lparr>vec_x = 0, vec_y = 0\<rparr>, \<lparr>vec_x = 10, vec_y = 0\<rparr>]) \<le> 30
   \<and> cells (applyMouseDamping \<lparr>position = 0, velocity = 1, anchor = 2, debug = False\<rparr> 3
          (heap_of [\<lparr>vec_x = 0, vec_y = 0\<rparr>, \<lparr>vec_x = 1, vec_y = 0\<rparr>,
             \<lparr>vec_x = 0, vec_y = 0\<rparr>, \<lparr>vec_x = 10, vec_y = 0\<rparr>])) 1
       = \<lparr>vec_x = 1 / 2, vec_y = 0\<rparr>"
proof -
  let ?e = "\<lparr>position = 0, velocity = 1, anchor = 2, debug = False\<rparr>"
  let ?far = "heap_of [\<lparr>vec_x = 0, vec_y = 0\<rparr>, \<lparr>vec_x = 1, vec_y = 0\<rparr>,
          \<lparr>vec_x = 0, vec_y = 0\<rparr>, \<lparr>vec_x = 40, vec_y = 0\<rparr>]"
  let ?near = "heap_of [\<lparr>vec_x = 0, vec_y = 0\<rparr>, \<lparr>vec_x = 1, vec_y = 0\<rparr>,
          \<lparr>vec_x = 0, vec_y = 0\<rparr>, \<lparr>vec_x = 10, vec_y = 0\<rparr>]"
  have sel: "position ?e = 0" "velocity ?e = 1" by simp_all
  have df: "Vector_dist 0 3 ?far = 40" and dn: "Vector_dist 0 3 ?near = 10"
    by (simp_all add: Vector_dist_horizontal)
  have v: "cells ?near 1 = \<lparr>vec_x = 1, vec_y = 0\<rparr>" by simp
  have c: "clamp (0.05 * 10) 0 1 = 1 / 2" by (simp add: clamp_def)
  note far = applyMouseDamping_contract [of ?e 3 ?far, unfolded sel df]
  note near = applyMouseDamping_contract [of ?e 3 ?near, unfolded sel dn v c]
  have a: "(30::real) < 40" "(10::real) < 20" "(10::real) \<le> 30"
    "\<lparr>vec_x = 1, vec_y = 0\<rparr> \<noteq> \<lparr>vec_x = 0, vec_y = 0\<rparr>"
    "vec_x \<lparr>vec_x = 1, vec_y = 0\<rparr> * (1 / 2) = 1 / 2"
    "vec_y \<lparr>vec_x = 1, vec_y = 0\<rparr> * (1 / 2) = 0"
    by simp_all
  have f: "applyMouseDamping ?e 3 ?far = ?far" using far a by blast
  have n1: "mag (cells (applyMouseDamping ?e 3 ?near) 1) < mag \<lparr>vec_x = 1, vec_y = 0\<rparr>"
    using near a by blast
  have n2: "cells (applyMouseDamping ?e 3 ?near) 1 = \<lparr>vec_x = 1 / 2, vec_y = 0\<rparr>"
    using near [unfolded a] a by blast
  show ?thesis
    unfolding df dn v using f n1 n2 a by blast
qed


text \<open>
  C3 as stated fails at distance exactly 20: the factor is clamp(1, 0, 1) = 1, so a
  particle with velocity (1, 0) at distance 20 from the pointer keeps its velocity.
\<close>

theorem applyMouseDamping_at_20_counterexample:
  "Vector_dist 0 3 (heap_of [\<lparr>vec_x = 0, vec_y = 0\<rparr>, \<lparr>vec_x = 1, vec_y = 0\<rparr>,
        \<lparr>vec_x = 0, vec_y = 0\<rparr>, \<lparr>vec_x = 20, vec_y = 0\<rparr>]) \<le> 20
   \<and> cells (heap_of [\<lparr>vec_x = 0, vec_y = 0\<rparr>, \<lparr>vec_x = 1, vec_y = 0\<rparr>,
        \<lparr>vec_x = 0, vec_y = 0\<rparr>, \<lparr>vec_x = 20, vec_y = 0\<rparr>]) 1 \<noteq> \<lparr>vec_x = 0, vec_y = 0\<rparr>
   \<and> \<not> mag (cells (applyMouseDamping \<lparr>position = 0, velocity = 1, anchor = 2, debug = False\<rparr> 3
          (heap_of [\<lparr>vec_x = 0, vec_y = 0\<rparr>, \<lparr>vec_x = 1, vec_y = 0\<rparr>,
             \<lparr>vec_x = 0, vec_y = 0\<rparr>, \<lparr>vec_x = 20, vec_y = 0\<rparr>])) 1)
       < mag (cells (heap_of [\<lparr>vec_x = 0, vec_y = 0\<rparr>, \<lparr>vec_x = 1, vec_y = 0\<rparr>,
             \<lparr>vec_x = 0, vec_y = 0\<rparr>, \<lparr>vec_x = 20, vec_y = 0\<rparr>]) 1)"
proof -
  let ?h = "heap_of [\<lparr>vec_x = 0, vec_y = 0\<rparr>, \<lparr>vec_x = 1, vec_y = 0\<rparr>,
        \<lparr>vec_x = 0, vec_y = 0\<rparr>, \<lparr>vec_x = 20, vec_y = 0\<rparr>]"
  let ?e = "\<lparr>position = 0, velocity = 1, anchor = 2, debug = False\<rparr>"
  have d: "Vector_dist 0 3 ?h = 20" by (simp add: Vector_dist_horizontal)
  have v: "cells ?h 1 \<noteq> \<lparr>vec_x = 0, vec_y = 0\<rparr>" by simp
  have "applyMouseDamping ?e 3 ?h = Vector_mult 1 (clamp (0.05 * 20) 0 1) ?h"
    using applyMouseDamping_near [of ?e 3 ?h] by (simp add: d)
  then have "cells (applyMouseDamping ?e 3 ?h) 1 = cells ?h 1"
    by (simp add: clamp_def Vector_mult_cells)
  then show ?thesis using d v by simp
qed

subsection \<open>The grid\<close>

lemma createEntity_entities:
  "entities (createEntity cfg i j s) =
     entities s @ [\<lparr>position = Suc (fresh (heap s)), velocity = Suc (Suc (fresh (heap s))),
                    anchor = Suc (Suc (Suc (fresh (heap s)))), debug = (i = 0 \<and> j = 0)\<rparr>]"
  by (simp add: createEntity_def Entity_new_def Let_def split_beta)

lemma createEntity_fresh:
  "fresh (heap (createEntity cfg i j s)) = Suc (Suc (Suc (Suc (fresh (heap s)))))"
  by (simp add: createEntity_def Entity_new_def Let_def split_beta)

lemma createEntity_old:
  "r < fresh (heap s) \<Longrightarrow> cells (heap (createEntity cfg i j s)) r = cells (heap s) r"
  by (simp add: createEntity_def Entity_new_def Let_def split_beta)

lemma createEntity_new:
  "cells (heap (createEntity cfg i j s)) (Suc (fresh (heap s))) = gridPoint cfg i j"
  "cells (heap (createEntity cfg i j s)) (Suc (Suc (fresh (heap s)))) = \<lparr>vec_x = 0, vec_y = 0\<rparr>"
  "cells (heap (createEntity cfg i j s)) (Suc (Suc (Suc (fresh (heap s))))) = gridPoint cfg i j"
  by (simp_all add: createEntity_def Entity_new_def Let_def split_beta gridPoint_def)

lemma createEntity_looping: "looping (createEntity cfg i j s) = looping s"
  by (simp add: createEntity_def Entity_new_def Let_def split_beta)

lemma createEntity_wellformed:
  assumes "wellformed s"
  shows "wellformed (createEntity cfg i j s)"
  using assms
  unfolding wellformed_def createEntity_entities createEntity_fresh
  by (auto simp: less_Suc_eq)

lemma createEntity_anchors:
  assumes "wellformed s"
  shows "anchors (createEntity cfg i j s) = anchors s @ [gridPoint cfg i j]"
proof -
  have "cells (heap (createEntity cfg i j s)) (anchor e) = cells (heap s) (anchor e)"
    if "e \<in> set (entities s)" for e
    using that assms by (intro createEntity_old) (simp add: wellformed_def)
  then show ?thesis
    by (simp add: anchors_def createEntity_entities createEntity_new)
qed

lemma column_fold:
  assumes "wellformed s"
  shows "wellformed (fold (createEntity cfg i) [0..<n] s)
       \<and> anchors (fold (createEntity cfg i) [0..<n] s)
           = anchors s @ map (gridPoint cfg i) [0..<n]"
proof (induction n)
  case 0
  show ?case using assms by simp
next
  case (Suc n)
  then show ?case
    by (simp add: createEntity_wellformed createEntity_anchors)
qed

lemma grid_fold:
  assumes "wellformed s"
  shows "wellformed (fold (\<lambda>i. fold (createEntity cfg i) [0..<r]) [0..<m] s)
       \<and> anchors (fold (\<lambda>i. fold (createEntity cfg i) [0..<r]) [0..<m] s)
           = anchors s @ concat (map (\<lambda>i. map (gridPoint cfg i) [0..<r]) [0..<m])"
proof (induction m)
  case 0
  show ?case using assms by simp
next
  case (Suc m)
  then show ?case
    using column_fold [of "fold (\<lambda>i. fold (createEntity cfg i) [0..<r]) [0..<m] s" cfg m r]
    by simp
qed

lemma wellformed_no_entities: "entities s = [] \<Longrightarrow> wellformed s"
  by (simp add: wellformed_def)

lemma createEntities_anchors:
  "anchors (createEntities cfg s)
     = concat (map (\<lambda>i. map (gridPoint cfg i) [0..<rows cfg]) [0..<columns cfg])"
  using grid_fold [of "s\<lparr>entities := []\<rparr>" cfg "rows cfg" "columns cfg"]
  by (simp add: createEntities_def wellformed_no_entities anchors_def)

lemma createEntities_wellformed: "wellformed (createEntities cfg s)"
  using grid_fold [of "s\<lparr>entities := []\<rparr>" cfg "rows cfg" "columns cfg"]
  by (simp add: createEntities_def wellformed_no_entities)

lemma length_grid: "length (concat (map (\<lambda>i. map (f i) [0..<r]) [0..<m])) = m * r"
  by (induction m) simp_all

lemma createEntities_length:
  "length (entities (createEntities cfg s)) = columns cfg * rows cfg"
proof -
  have "length (entities (createEntities cfg s)) = length (anchors (createEntities cfg s))"
    by (simp add: anchors_def)
  then show ?thesis by (simp add: createEntities_anchors length_grid)
qed

lemma sum_affine:
  fixes a b :: real
  shows "sum_list (map (\<lambda>i. real i * a - b) [0..<n]) = a * (real n * (real n - 1) / 2) - real n * b"
  by (induction n) (simp_all add: algebra_simps)

lemma sum_const: "sum_list (map (\<lambda>j. (c::real)) [0..<n]) = real n * c"
  by (induction n) (simp_all add: algebra_simps)

lemma sum_grid_x:
  "sum_list (map vec_x (concat (map (\<lambda>i. map (gridPoint cfg i) [0..<r]) [0..<m])))
     = real r * sum_list (map (\<lambda>i. vec_x (gridPoint cfg i 0)) [0..<m])"
proof (induction m)
  case 0
  show ?case by simp
next
  case (Suc m)
  have "map vec_x (map (gridPoint cfg m) [0..<r]) = map (\<lambda>j. vec_x (gridPoint cfg m 0)) [0..<r]"
    by (simp add: gridPoint_def)
  then have "sum_list (map vec_x (map (gridPoint cfg m) [0..<r])) = real r * vec_x (gridPoint cfg m 0)"
    by (simp only: sum_const)
  with Suc show ?case by (simp add: algebra_simps)
qed

lemma sum_grid_y:
  "sum_list (map vec_y (concat (map (\<lambda>i. map (gridPoint cfg i) [0..<r]) [0..<m])))
     = real m * sum_list (map (\<lambda>j. vec_y (gridPoint cfg 0 j)) [0..<r])"
proof (induction m)
  case 0
  show ?case by simp
next
  case (Suc m)
  have "vec_y (gridPoint cfg m j) = vec_y (gridPoint cfg 0 j)" for j
    by (simp add: gridPoint_def)
  with Suc show ?case by (simp add: algebra_simps comp_def)
qed

lemma createEntities_sum_x:
  "sum_list (map vec_x (anchors (createEntities cfg s)))
     = - (real (columns cfg) * real (rows cfg) * dotSize cfg / 2)"
proof -
  have "sum_list (map (\<lambda>i. vec_x (gridPoint cfg i 0)) [0..<columns cfg])
      = - (real (columns cfg) * dotSize cfg / 2)"
    unfolding gridPoint_def Vector.simps sum_affine by (simp add: field_simps)
  then show ?thesis
    by (simp add: createEntities_anchors sum_grid_x)
qed

lemma createEntities_sum_y:
  "sum_list (map vec_y (anchors (createEntities cfg s)))
     = - (real (columns cfg) * real (rows cfg) * dotSize cfg / 2)"
proof -
  have "sum_list (map (\<lambda>j. vec_y (gridPoint cfg 0 j)) [0..<rows cfg])
      = - (real (rows cfg) * dotSize cfg / 2)"
    unfolding gridPoint_def Vector.simps sum_affine by (simp add: field_simps)
  then show ?thesis
    by (simp add: createEntities_anchors sum_grid_y)
qed


text \<open>
  C6. The grid \<open>p.setup\<close> builds under the default settings has 80 * 40 = 3200
  particles, and its anchors are not centred on the origin: their x-coordinates sum to
  -6400 and their y-coordinates sum to -6400 (every anchor sits half a dot size, 2, to
  the left of and above the symmetric position). For any settings the count is
  columns * rows and each sum is -(columns * rows * dotSize / 2)
  (\<open>createEntities_length\<close>, \<open>createEntities_sum_x\<close>, \<open>createEntities_sum_y\<close>).
\<close>

theorem createEntities_default_grid:
  "length (entities (p5_setup settings initial)) = 3200
   \<and> sum_list (map vec_x (anchors (p5_setup settings initial))) = - 6400
   \<and> sum_list (map vec_y (anchors (p5_setup settings initial))) = - 6400"
  by (simp add: p5_setup_def createEntities_length createEntities_sum_x createEntities_sum_y)
     (simp add: settings_def)

subsection \<open>What each operation can change\<close>

lemma Vector_add_fresh [simp]: "fresh (Vector_add r v h) = fresh h"
  by (simp add: Vector_add_def)

lemma Vector_mult_fresh [simp]: "fresh (Vector_mult r n h) = fresh h"
  by (simp add: Vector_mult_def)

lemma calculateGravity_alloc [simp]:
  "fst (calculateGravity cfg p q h) = fresh h"
  "fresh (snd (calculateGravity cfg p q h)) = Suc (fresh h)"
  "r \<noteq> fresh h \<Longrightarrow> cells (snd (calculateGravity cfg p q h)) r = cells h r"
  by (simp_all add: calculateGravity_def Let_def)

lemma calculateElasticity_alloc [simp]:
  "fst (calculateElasticity cfg p q h) = fresh h"
  "fresh (snd (calculateElasticity cfg p q h)) = Suc (fresh h)"
  "r \<noteq> fresh h \<Longrightarrow> cells (snd (calculateElasticity cfg p q h)) r = cells h r"
  by (simp_all add: calculateElasticity_def Let_def)

lemma applyForce_frame:
  "fresh (applyForce e f h) = fresh h"
  "r \<noteq> velocity e \<Longrightarrow> cells (applyForce e f h) r = cells h r"
  by (simp_all add: applyForce_def Vector_add_cells)

lemma applyForce_velocity:
  "cells (applyForce e f h) (velocity e) =
     \<lparr>vec_x = vec_x (cells h (velocity e)) + vec_x (cells h f),
      vec_y = vec_y (cells h (velocity e)) + vec_y (cells h f)\<rparr>"
  by (simp add: applyForce_def Vector_add_cells)

lemma applyAnchorDamping_frame:
  "fresh (applyAnchorDamping e h) = fresh h"
  "r \<noteq> velocity e \<Longrightarrow> cells (applyAnchorDamping e h) r = cells h r"
  by (simp_all add: applyAnchorDamping_def Let_def Vector_mult_cells)

lemma applyMouseDamping_frame:
  "fresh (applyMouseDamping e m h) = fresh h"
  "r \<noteq> velocity e \<Longrightarrow> cells (applyMouseDamping e m h) r = cells h r"
  by (simp_all add: applyMouseDamping_def Let_def Vector_mult_cells)

lemma applyVelocity_frame:
  "fresh (applyVelocity e h) = fresh h"
  "r \<noteq> position e \<Longrightarrow> cells (applyVelocity e h) r = cells h r"
  by (simp_all add: applyVelocity_def Vector_add_cells)

lemma show_entity_frame:
  "heap (show_entity cfg e s) = heap s"
  "entities (show_entity cfg e s) = entities s"
  "looping (show_entity cfg e s) = looping s"
  "pending (show_entity cfg e s) = pending s"
  "rebuildTimer (show_entity cfg e s) = rebuildTimer s"
  by (simp_all add: show_entity_def)

lemma sketch_of_wellformed: "wellformed (sketch_of p v a)"
  by (simp add: wellformed_def sketch_of_def particle0_def)

lemma sketch_of_simps:
  "entities (sketch_of p v a) = [particle0]"
  "looping (sketch_of p v a)"
  "cells (heap (sketch_of p v a)) (position particle0) = p"
  "cells (heap (sketch_of p v a)) (velocity particle0) = v"
  "cells (heap (sketch_of p v a)) (anchor particle0) = a"
  "fresh (heap (sketch_of p v a)) = 3"
  by (simp_all add: sketch_of_def particle0_def)


subsection \<open>The loop body of \<open>draw\<close>\<close>

text \<open>The two shapes of the loop body.\<close>

lemma drawEntity_absent:
  assumes "mouseX env = 0 \<or> mouseY env = 0"
  shows "drawEntity cfg env e s =
     show_entity cfg e (s\<lparr>heap :=
       applyVelocity e (applyAnchorDamping e
         (applyForce e (fst (calculateElasticity cfg (position e) (anchor e) (heap s)))
            (snd (calculateElasticity cfg (position e) (anchor e) (heap s)))))\<rparr>)"
  using assms by (auto simp add: drawEntity_def Let_def split_beta getPosition_def getAnchor_def)

lemma drawEntity_present:
  assumes "mouseX env \<noteq> 0" "mouseY env \<noteq> 0"
  shows "drawEntity cfg env e s =
     show_entity cfg e (s\<lparr>heap :=
       applyVelocity e (applyMouseDamping e (fst (mouseVector env (heap s)))
         (applyAnchorDamping e
           (applyForce e (fst (calculateElasticity cfg (position e) (anchor e) (withGravity cfg env e (heap s))))
              (snd (calculateElasticity cfg (position e) (anchor e) (withGravity cfg env e (heap s)))))))\<rparr>)"
  using assms
  by (simp add: drawEntity_def Let_def split_beta getPosition_def getAnchor_def
        mouseVector_def withGravity_def)

lemma withGravity_frame:
  "fresh (withGravity cfg env e h) = Suc (Suc (fresh h))"
  "r < fresh h \<Longrightarrow> r \<noteq> velocity e \<Longrightarrow> cells (withGravity cfg env e h) r = cells h r"
  by (simp_all add: withGravity_def mouseVector_def applyForce_frame)

lemma drawEntity_frame:
  "entities (drawEntity cfg env e s) = entities s"
  "looping (drawEntity cfg env e s) = looping s"
  "fresh (heap s) \<le> fresh (heap (drawEntity cfg env e s))"
  "r < fresh (heap s) \<Longrightarrow> r \<noteq> velocity e \<Longrightarrow> r \<noteq> position e \<Longrightarrow>
     cells (heap (drawEntity cfg env e s)) r = cells (heap s) r"
proof -
  consider (absent) "mouseX env = 0 \<or> mouseY env = 0" | (present) "mouseX env \<noteq> 0" "mouseY env \<noteq> 0"
    by blast
  then show "entities (drawEntity cfg env e s) = entities s"
    by cases (simp_all add: drawEntity_absent drawEntity_present show_entity_frame)
  show "looping (drawEntity cfg env e s) = looping s"
    by (cases "mouseX env = 0 \<or> mouseY env = 0")
       (simp_all add: drawEntity_absent drawEntity_present show_entity_frame)
  show "fresh (heap s) \<le> fresh (heap (drawEntity cfg env e s))"
    by (cases "mouseX env = 0 \<or> mouseY env = 0")
       (simp_all add: drawEntity_absent drawEntity_present show_entity_frame
          applyVelocity_frame applyMouseDamping_frame applyAnchorDamping_frame applyForce_frame
          withGravity_frame)
  show "cells (heap (drawEntity cfg env e s)) r = cells (heap s) r"
    if "r < fresh (heap s)" "r \<noteq> velocity e" "r \<noteq> position e"
    using that
    by (cases "mouseX env = 0 \<or> mouseY env = 0")
       (simp_all add: drawEntity_absent drawEntity_present show_entity_frame
          applyVelocity_frame applyMouseDamping_frame applyAnchorDamping_frame applyForce_frame
          withGravity_frame)
qed

lemma drawEntity_flags:
  "pending (drawEntity cfg env e s) = pending s"
  "rebuildTimer (drawEntity cfg env e s) = rebuildTimer s"
  by (cases "mouseX env = 0 \<or> mouseY env = 0";
      simp add: drawEntity_absent drawEntity_present show_entity_frame)+

lemma wellformed_mono:
  assumes "wellformed s" "entities t = entities s" "fresh (heap s) \<le> fresh (heap t)"
  shows "wellformed t"
  using assms unfolding wellformed_def by (auto intro: less_le_trans)

lemma untouched_mono:
  assumes "untouched r s" "entities t = entities s" "fresh (heap s) \<le> fresh (heap t)"
  shows "untouched r t"
  using assms unfolding untouched_def by (auto intro: less_le_trans)

lemma anchor_untouched:
  "wellformed s \<Longrightarrow> a \<in> set (entities s) \<Longrightarrow> untouched (anchor a) s"
  by (auto simp: wellformed_def untouched_def)

lemma draw_fold_flags:
  "entities (fold (drawEntity cfg env) es s) = entities s
   \<and> looping (fold (drawEntity cfg env) es s) = looping s
   \<and> pending (fold (drawEntity cfg env) es s) = pending s
   \<and> rebuildTimer (fold (drawEntity cfg env) es s) = rebuildTimer s
   \<and> fresh (heap s) \<le> fresh (heap (fold (drawEntity cfg env) es s))"
proof (induction es arbitrary: s)
  case Nil
  show ?case by simp
next
  case (Cons e es)
  have "fresh (heap s) \<le> fresh (heap (drawEntity cfg env e s))"
    by (rule drawEntity_frame(3))
  with Cons [of "drawEntity cfg env e s"] show ?case
    by (simp add: drawEntity_frame(1,2) drawEntity_flags)
qed

lemma draw_fold_cell:
  assumes "set es \<subseteq> set (entities s)" "untouched r s"
  shows "cells (heap (fold (drawEntity cfg env) es s)) r = cells (heap s) r"
  using assms
proof (induction es arbitrary: s)
  case Nil
  show ?case by simp
next
  case (Cons e es)
  let ?t = "drawEntity cfg env e s"
  have e: "e \<in> set (entities s)" using Cons.prems(1) by simp
  have c: "cells (heap ?t) r = cells (heap s) r"
    using Cons.prems(2) e by (intro drawEntity_frame(4)) (auto simp: untouched_def)
  have u: "untouched r ?t"
    using Cons.prems(2) by (rule untouched_mono) (simp_all add: drawEntity_frame)
  have "set es \<subseteq> set (entities ?t)"
    using Cons.prems(1) by (simp add: drawEntity_frame)
  from Cons.IH [OF this u] c show ?case by simp
qed

lemma draw_flags:
  "entities (draw cfg env s) = entities s"
  "looping (draw cfg env s) = looping s"
  "pending (draw cfg env s) = pending s"
  "rebuildTimer (draw cfg env s) = rebuildTimer s"
  "fresh (heap s) \<le> fresh (heap (draw cfg env s))"
  using draw_fold_flags [of cfg env "entities s" "s\<lparr>canvas := []\<rparr>"]
  by (simp_all add: draw_def)

lemma draw_cell:
  assumes "untouched r s"
  shows "cells (heap (draw cfg env s)) r = cells (heap s) r"
proof -
  have u: "untouched r (s\<lparr>canvas := []\<rparr>)"
    using assms by (simp add: untouched_def)
  show ?thesis
    using draw_fold_cell [of "entities s" "s\<lparr>canvas := []\<rparr>" r cfg env] u
    by (simp add: draw_def)
qed

lemma draw_wellformed: "wellformed s \<Longrightarrow> wellformed (draw cfg env s)"
  by (rule wellformed_mono [where s = s]) (simp_all add: draw_flags)

lemma draw_untouched: "untouched r s \<Longrightarrow> untouched r (draw cfg env s)"
  by (rule untouched_mono [where s = s]) (simp_all add: draw_flags)

text \<open>The grid is built on the store it started from.\<close>

lemma built_on_createEntity:
  assumes "built_on h0 t"
  shows "built_on h0 (createEntity cfg i j t)"
  using assms
  unfolding built_on_def createEntity_entities createEntity_fresh
  by (auto simp: createEntity_old)

lemma built_on_column:
  "built_on h0 t \<Longrightarrow> built_on h0 (fold (createEntity cfg i) [0..<n] t)"
  by (induction n) (simp_all add: built_on_createEntity)

lemma built_on_grid:
  "built_on h0 t \<Longrightarrow> built_on h0 (fold (\<lambda>i. fold (createEntity cfg i) [0..<r]) [0..<m] t)"
  by (induction m) (simp_all add: built_on_column)

lemma createEntities_built_on: "built_on (heap s) (createEntities cfg s)"
proof -
  have "built_on (heap s) (s\<lparr>entities := []\<rparr>)" by (simp add: built_on_def)
  then show ?thesis unfolding createEntities_def by (rule built_on_grid)
qed

lemma createEntities_cell:
  "untouched r s \<Longrightarrow> cells (heap (createEntities cfg s)) r = cells (heap s) r"
  using createEntities_built_on [of s cfg] by (simp add: built_on_def untouched_def)

lemma createEntities_untouched:
  "untouched r s \<Longrightarrow> untouched r (createEntities cfg s)"
  using createEntities_built_on [of s cfg] by (fastforce simp: built_on_def untouched_def)

text \<open>Every step of the scheduler leaves an untouched vector as it was.\<close>

lemma frameCallback_frame:
  "entities (frameCallback cfg elapsed env s) = entities s"
  "wellformed s \<Longrightarrow> wellformed (frameCallback cfg elapsed env s)"
  "untouched r s \<Longrightarrow> untouched r (frameCallback cfg elapsed env s)"
  "untouched r s \<Longrightarrow> cells (heap (frameCallback cfg elapsed env s)) r = cells (heap s) r"
proof -
  have w: "wellformed (t\<lparr>pending := n\<rparr>) = wellformed t" for t n
    by (simp add: wellformed_def)
  have u: "untouched r (t\<lparr>pending := n\<rparr>) = untouched r t" for t n
    by (simp add: untouched_def)
  show "entities (frameCallback cfg elapsed env s) = entities s"
    by (simp add: frameCallback_def redraw_def Let_def draw_flags)
  show "wellformed (frameCallback cfg elapsed env s)" if "wellformed s"
    using that by (simp add: frameCallback_def redraw_def Let_def w draw_wellformed)
  show "untouched r (frameCallback cfg elapsed env s)" if "untouched r s"
    using that by (simp add: frameCallback_def redraw_def Let_def u draw_untouched)
  show "cells (heap (frameCallback cfg elapsed env s)) r = cells (heap s) r" if "untouched r s"
    using that by (simp add: frameCallback_def redraw_def Let_def draw_cell)
qed

lemma step_entities: "ev \<noteq> Rebuild \<Longrightarrow> entities (step cfg ev s) = entities s"
  by (cases ev)
     (simp_all add: frameCallback_frame pauseFn_def noLoop_def resumeFn_def loop_def
        windowResized_def resizeCanvas_def redraw_def draw_flags)

lemma step_frame:
  assumes "wellformed s" "untouched r s"
  shows "wellformed (step cfg ev s)
       \<and> untouched r (step cfg ev s)
       \<and> cells (heap (step cfg ev s)) r = cells (heap s) r"
proof (cases ev)
  case (Frame elapsed env)
  let ?t = "s\<lparr>pending := pending s - 1\<rparr>"
  have w: "wellformed ?t" and u: "untouched r ?t"
    using assms by (simp_all add: wellformed_def untouched_def)
  have "wellformed (frameCallback cfg elapsed env ?t)"
    "untouched r (frameCallback cfg elapsed env ?t)"
    "cells (heap (frameCallback cfg elapsed env ?t)) r = cells (heap s) r"
    using frameCallback_frame(2) [OF w] frameCallback_frame(3) [OF u]
      frameCallback_frame(4) [OF u]
    by simp_all
  then show ?thesis using assms Frame by simp
next
  case Pause
  then show ?thesis
    using assms by (simp add: pauseFn_def noLoop_def wellformed_def untouched_def)
next
  case (Resume elapsed env)
  let ?t = "s\<lparr>looping := True\<rparr>"
  have w: "wellformed ?t" and u: "untouched r ?t"
    using assms by (simp_all add: wellformed_def untouched_def)
  have "wellformed (frameCallback cfg elapsed env ?t)"
    "untouched r (frameCallback cfg elapsed env ?t)"
    "cells (heap (frameCallback cfg elapsed env ?t)) r = cells (heap s) r"
    using frameCallback_frame(2) [OF w] frameCallback_frame(3) [OF u]
      frameCallback_frame(4) [OF u]
    by simp_all
  then show ?thesis using assms Resume by (simp add: resumeFn_def loop_def)
next
  case (Resize env)
  have "wellformed (t\<lparr>rebuildTimer := True\<rparr>) = wellformed t"
    "untouched r (t\<lparr>rebuildTimer := True\<rparr>) = untouched r t" for t
    by (simp_all add: wellformed_def untouched_def)
  then show ?thesis
    using assms Resize
    by (simp add: windowResized_def resizeCanvas_def redraw_def
          draw_wellformed draw_untouched draw_cell)
next
  case Rebuild
  have "wellformed (t\<lparr>rebuildTimer := False\<rparr>) = wellformed t"
    "untouched r (t\<lparr>rebuildTimer := False\<rparr>) = untouched r t" for t
    by (simp_all add: wellformed_def untouched_def)
  then show ?thesis
    using assms Rebuild
    by (simp add: createEntities_wellformed createEntities_untouched createEntities_cell)
qed

lemma run_frame:
  assumes "wellformed s" "untouched r s"
  shows "wellformed (run cfg evs s)
       \<and> untouched r (run cfg evs s)
       \<and> cells (heap (run cfg evs s)) r = cells (heap s) r"
  using assms unfolding run_def
proof (induction evs arbitrary: s)
  case Nil
  then show ?case by simp
next
  case (Cons ev evs)
  have st: "wellformed (step cfg ev s)" "untouched r (step cfg ev s)"
    "cells (heap (step cfg ev s)) r = cells (heap s) r"
    using step_frame [OF Cons.prems, of cfg ev] by simp_all
  from Cons.IH [OF st(1,2)] show ?case by (simp add: st)
qed

lemma run_entities:
  "Rebuild \<notin> set evs \<Longrightarrow> entities (run cfg evs s) = entities s"
  unfolding run_def
  by (induction evs arbitrary: s) (auto simp: step_entities)

text \<open>
  C8. A particle's anchor is never mutated. In a wellformed sketch (every sketch that
  \<open>createEntities\<close> builds is one, \<open>createEntities_wellformed\<close>), for entities
  \<open>e\<close> and \<open>a\<close> of the array: \<open>applyForce\<close>, \<open>applyAnchorDamping\<close>,
  \<open>applyMouseDamping\<close>, \<open>applyVelocity\<close> and \<open>show\<close> on \<open>e\<close> leave the vector
  that is the anchor of \<open>a\<close> as it was; so does a whole frame (\<open>draw\<close>), which also
  leaves the array of entities as it was; and so does any sequence of frames, pauses,
  resumes, resizes and rebuilds of the grid. Such a sequence leaves the sketch
  wellformed, so the same holds for the particles a rebuild creates, and it leaves
  the array of entities, and so every anchor field, as it was unless it rebuilds the
  grid.
\<close>

theorem anchor_never_mutated:
  assumes "wellformed s" "e \<in> set (entities s)" "a \<in> set (entities s)"
  shows "cells (applyForce e f (heap s)) (anchor a) = cells (heap s) (anchor a)
       \<and> cells (applyAnchorDamping e (heap s)) (anchor a) = cells (heap s) (anchor a)
       \<and> cells (applyMouseDamping e m (heap s)) (anchor a) = cells (heap s) (anchor a)
       \<and> cells (applyVelocity e (heap s)) (anchor a) = cells (heap s) (anchor a)
       \<and> cells (heap (show_entity cfg e s)) (anchor a) = cells (heap s) (anchor a)
       \<and> entities (show_entity cfg e s) = entities s
       \<and> cells (heap (draw cfg env s)) (anchor a) = cells (heap s) (anchor a)
       \<and> entities (draw cfg env s) = entities s
       \<and> wellformed (draw cfg env s)
       \<and> cells (heap (run cfg evs s)) (anchor a) = cells (heap s) (anchor a)
       \<and> (Rebuild \<notin> set evs \<longrightarrow> entities (run cfg evs s) = entities s)
       \<and> wellformed (run cfg evs s)"
proof -
  have v: "anchor a \<noteq> velocity e" and p: "anchor a \<noteq> position e"
    using assms by (auto simp: wellformed_def)
  have u: "untouched (anchor a) s"
    using assms(1,3) by (rule anchor_untouched)
  show ?thesis
    using draw_cell [OF u, of cfg env] draw_wellformed [OF assms(1), of cfg env]
      run_frame [OF assms(1) u, of cfg evs] run_entities [of evs cfg s]
    by (simp add: applyForce_frame(2) [OF v] applyAnchorDamping_frame(2) [OF v]
          applyMouseDamping_frame(2) [OF v] applyVelocity_frame(2) [OF p] show_entity_frame
          draw_flags)
qed

theorem anchor_never_mutated_witness:
  "wellformed (sketch_of \<lparr>vec_x = 5, vec_y = 5\<rparr> \<lparr>vec_x = 1, vec_y = 0\<rparr> \<lparr>vec_x = 0, vec_y = 0\<rparr>)
   \<and> particle0 \<in> set (entities (sketch_of \<lparr>vec_x = 5, vec_y = 5\<rparr> \<lparr>vec_x = 1, vec_y = 0\<rparr> \<lparr>vec_x = 0, vec_y = 0\<rparr>))
   \<and> cells (applyVelocity particle0
          (heap (sketch_of \<lparr>vec_x = 5, vec_y = 5\<rparr> \<lparr>vec_x = 1, vec_y = 0\<rparr> \<lparr>vec_x = 0, vec_y = 0\<rparr>)))
        (anchor particle0) = \<lparr>vec_x = 0, vec_y = 0\<rparr>
   \<and> cells (heap (draw settings env_inside
          (sketch_of \<lparr>vec_x = 5, vec_y = 5\<rparr> \<lparr>vec_x = 1, vec_y = 0\<rparr> \<lparr>vec_x = 0, vec_y = 0\<rparr>)))
        (anchor particle0) = \<lparr>vec_x = 0, vec_y = 0\<rparr>
   \<and> cells (heap (run settings
          [Frame True env_inside, Pause, Frame False env_inside, Resize env_inside,
           Resume True env_inside, Rebuild, Frame True env_inside]
          (sketch_of \<lparr>vec_x = 5, vec_y = 5\<rparr> \<lparr>vec_x = 1, vec_y = 0\<rparr> \<lparr>vec_x = 0, vec_y = 0\<rparr>)))
        (anchor particle0) = \<lparr>vec_x = 0, vec_y = 0\<rparr>
   \<and> Rebuild \<notin> set [Frame True env_inside, Pause, Frame False env_inside, Resume True env_inside]
   \<and> entities (run settings
          [Frame True env_inside, Pause, Frame False env_inside, Resume True env_inside]
          (sketch_of \<lparr>vec_x = 5, vec_y = 5\<rparr> \<lparr>vec_x = 1, vec_y = 0\<rparr> \<lparr>vec_x = 0, vec_y = 0\<rparr>))
       = entities (sketch_of \<lparr>vec_x = 5, vec_y = 5\<rparr> \<lparr>vec_x = 1, vec_y = 0\<rparr> \<lparr>vec_x = 0, vec_y = 0\<rparr>)"
proof -
  let ?s = "sketch_of \<lparr>vec_x = 5, vec_y = 5\<rparr> \<lparr>vec_x = 1, vec_y = 0\<rparr> \<lparr>vec_x = 0, vec_y = 0\<rparr>"
  have w: "wellformed ?s" by (rule sketch_of_wellformed)
  have m: "particle0 \<in> set (entities ?s)" by (simp add: sketch_of_simps)
  have c: "cells (heap ?s) (anchor particle0) = \<lparr>vec_x = 0, vec_y = 0\<rparr>"
    by (simp add: sketch_of_simps)
  have n: "Rebuild \<notin> set [Frame True env_inside, Pause, Frame False env_inside, Resume True env_inside]"
    by simp
  show ?thesis
    using anchor_never_mutated [OF w m m, unfolded c,
        where cfg = settings and env = env_inside
          and evs = "[Frame True env_inside, Pause, Frame False env_inside, Resize env_inside,
                      Resume True env_inside, Rebuild, Frame True env_inside]"]
      anchor_never_mutated [OF w m m,
        where evs = "[Frame True env_inside, Pause, Frame False env_inside, Resume True env_inside]"
          and cfg = settings]
      w m n
    by blast
qed

subsection \<open>Pause and resume\<close>











subsection \<open>The pointer\<close>

lemma withGravity_velocity:
  assumes "velocity e < fresh h"
  shows "cells (withGravity cfg env e h) (velocity e) =
     \<lparr>vec_x = vec_x (cells h (velocity e))
         + vec_x (deref (calculateGravity cfg (position e) (fst (mouseVector env h)) (snd (mouseVector env h)))),
      vec_y = vec_y (cells h (velocity e))
         + vec_y (deref (calculateGravity cfg (position e) (fst (mouseVector env h)) (snd (mouseVector env h))))\<rparr>"
proof -
  let ?g = "calculateGravity cfg (position e) (fst (mouseVector env h)) (snd (mouseVector env h))"
  have "cells (snd ?g) (velocity e) = cells h (velocity e)"
    using assms by (simp add: mouseVector_def)
  then show ?thesis
    by (simp add: withGravity_def applyForce_velocity deref_def)
qed

lemma draw_absent_independent:
  assumes "mouseX env = 0 \<or> mouseY env = 0" "mouseX env' = 0 \<or> mouseY env' = 0"
  shows "draw cfg env s = draw cfg env' s"
proof -
  have "drawEntity cfg env = drawEntity cfg env'"
    by (intro ext) (simp add: drawEntity_absent [OF assms(1)] drawEntity_absent [OF assms(2)])
  then show ?thesis by (simp add: draw_def)
qed


text \<open>
  C5, as the code has it. The frame treats the pointer as absent exactly when at least
  one raw coordinate is zero. If \<open>mouseX\<close> or \<open>mouseY\<close> is zero, the loop body is
  elasticity, anchor damping, integration and rendering only, and the whole frame is
  the same as for any other pointer reading with a zero coordinate. If both are nonzero,
  the loop body first applies the gravity force towards the centred pointer (the
  velocity becomes the old velocity plus that force), and applies mouse damping after
  anchor damping.
\<close>

theorem pointer_absent_iff_a_coordinate_is_zero:
  "(mouseX env = 0 \<or> mouseY env = 0 \<longrightarrow>
      drawEntity cfg env e s =
        show_entity cfg e (s\<lparr>heap :=
          applyVelocity e (applyAnchorDamping e
            (applyForce e (fst (calculateElasticity cfg (position e) (anchor e) (heap s)))
               (snd (calculateElasticity cfg (position e) (anchor e) (heap s)))))\<rparr>)
      \<and> (mouseX env' = 0 \<or> mouseY env' = 0 \<longrightarrow> draw cfg env s = draw cfg env' s))
   \<and> (mouseX env \<noteq> 0 \<and> mouseY env \<noteq> 0 \<longrightarrow>
      drawEntity cfg env e s =
        show_entity cfg e (s\<lparr>heap :=
          applyVelocity e (applyMouseDamping e (fst (mouseVector env (heap s)))
            (applyAnchorDamping e
              (applyForce e
                 (fst (calculateElasticity cfg (position e) (anchor e) (withGravity cfg env e (heap s))))
                 (snd (calculateElasticity cfg (position e) (anchor e) (withGravity cfg env e (heap s)))))))\<rparr>)
      \<and> (velocity e < fresh (heap s) \<longrightarrow>
           cells (withGravity cfg env e (heap s)) (velocity e) =
             \<lparr>vec_x = vec_x (cells (heap s) (velocity e))
                 + vec_x (deref (calculateGravity cfg (position e)
                      (fst (mouseVector env (heap s))) (snd (mouseVector env (heap s))))),
              vec_y = vec_y (cells (heap s) (velocity e))
                 + vec_y (deref (calculateGravity cfg (position e)
                      (fst (mouseVector env (heap s))) (snd (mouseVector env (heap s)))))\<rparr>))"
  using drawEntity_absent [of env cfg e s] drawEntity_present [of env cfg e s]
    draw_absent_independent [of env env' cfg s] withGravity_velocity [of e "heap s" cfg env]
  by blast

theorem pointer_absent_iff_a_coordinate_is_zero_witness:
  "mouseX env_edge = 0
   \<and> mouseX (env_edge\<lparr>mouseY := 0\<rparr>) = 0
   \<and> draw settings env_edge (sketch_of \<lparr>vec_x = 5, vec_y = 5\<rparr> \<lparr>vec_x = 1, vec_y = 0\<rparr> \<lparr>vec_x = 0, vec_y = 0\<rparr>)
       = draw settings (env_edge\<lparr>mouseY := 0\<rparr>)
           (sketch_of \<lparr>vec_x = 5, vec_y = 5\<rparr> \<lparr>vec_x = 1, vec_y = 0\<rparr> \<lparr>vec_x = 0, vec_y = 0\<rparr>)
   \<and> mouseX env_inside \<noteq> 0 \<and> mouseY env_inside \<noteq> 0
   \<and> velocity particle0 < fresh (heap (sketch_of \<lparr>vec_x = 5, vec_y = 5\<rparr> \<lparr>vec_x = 1, vec_y = 0\<rparr> \<lparr>vec_x = 0, vec_y = 0\<rparr>))
   \<and> vec_x (cells (withGravity settings env_inside particle0
          (heap (sketch_of \<lparr>vec_x = 5, vec_y = 5\<rparr> \<lparr>vec_x = 1, vec_y = 0\<rparr> \<lparr>vec_x = 0, vec_y = 0\<rparr>)))
        (velocity particle0))
       = 1 + vec_x (deref (calculateGravity settings (position particle0)
          (fst (mouseVector env_inside (heap (sketch_of \<lparr>vec_x = 5, vec_y = 5\<rparr> \<lparr>vec_x = 1, vec_y = 0\<rparr> \<lparr>vec_x = 0, vec_y = 0\<rparr>))))
          (snd (mouseVector env_inside (heap (sketch_of \<lparr>vec_x = 5, vec_y = 5\<rparr> \<lparr>vec_x = 1, vec_y = 0\<rparr> \<lparr>vec_x = 0, vec_y = 0\<rparr>))))))"
proof -
  let ?s = "sketch_of \<lparr>vec_x = 5, vec_y = 5\<rparr> \<lparr>vec_x = 1, vec_y = 0\<rparr> \<lparr>vec_x = 0, vec_y = 0\<rparr>"
  have a: "mouseX env_edge = 0" "mouseX (env_edge\<lparr>mouseY := 0\<rparr>) = 0"
    by (simp_all add: env_edge_def)
  have b: "mouseX env_inside \<noteq> 0" "mouseY env_inside \<noteq> 0" by (simp_all add: env_inside_def)
  have c: "velocity particle0 < fresh (heap ?s)"
    by (simp add: sketch_of_simps) (simp add: particle0_def)
  have v: "cells (heap ?s) (velocity particle0) = \<lparr>vec_x = 1, vec_y = 0\<rparr>"
    by (simp add: sketch_of_simps)
  have d: "draw settings env_edge ?s = draw settings (env_edge\<lparr>mouseY := 0\<rparr>) ?s"
    using pointer_absent_iff_a_coordinate_is_zero
            [of env_edge settings particle0 ?s "env_edge\<lparr>mouseY := 0\<rparr>"] a
    by blast
  have "cells (withGravity settings env_inside particle0 (heap ?s)) (velocity particle0) =
          \<lparr>vec_x = vec_x (cells (heap ?s) (velocity particle0))
              + vec_x (deref (calculateGravity settings (position particle0)
                   (fst (mouseVector env_inside (heap ?s))) (snd (mouseVector env_inside (heap ?s))))),
           vec_y = vec_y (cells (heap ?s) (velocity particle0))
              + vec_y (deref (calculateGravity settings (position particle0)
                   (fst (mouseVector env_inside (heap ?s))) (snd (mouseVector env_inside (heap ?s)))))\<rparr>"
    using pointer_absent_iff_a_coordinate_is_zero [of env_inside settings particle0 ?s env_inside] b c
    by blast
  then have g: "vec_x (cells (withGravity settings env_inside particle0 (heap ?s)) (velocity particle0))
       = 1 + vec_x (deref (calculateGravity settings (position particle0)
            (fst (mouseVector env_inside (heap ?s))) (snd (mouseVector env_inside (heap ?s)))))"
    by (simp add: v)
  show ?thesis using a b c d g by blast
qed


text \<open>
  C5 as stated fails for a pointer on the left edge of the window, raw position (0, 5):
  one coordinate is nonzero, the gravity force on a particle resting at the origin
  towards the centred pointer (-50, 0) is not zero (its x-component is negative), and
  yet after the frame the particle's velocity is still (0, 0).
\<close>

lemma gravity_pulls_left:
  assumes "vec_y (cells h p) = vec_y (cells h q)" "vec_x (cells h q) < vec_x (cells h p)"
  shows "vec_x (deref (calculateGravity settings p q h)) < 0"
proof -
  let ?d = "Vector_dist p q h"
  have d: "?d = vec_x (cells h p) - vec_x (cells h q)"
    using assms by (simp add: Vector_dist_horizontal)
  then have dpos: "0 < ?d" using assms(2) by simp
  have u: "(vec_x (cells h q) - vec_x (cells h p)) / ?d = - 1"
    using dpos d by (simp add: field_simps)
  have F: "0 < 1000 / (?d powr 1.05)" using dpos by simp
  have "vec_x (deref (calculateGravity settings p q h))
          = clamp (1000 / (?d powr 1.05) * (- 1)) (- 12) 12"
    by (simp only: calculateGravity_deref u Vector.simps) (simp add: settings_def)
  also have "\<dots> < 0"
  proof -
    have "clamp (F * (- 1)) (- 12) 12 < 0" if "0 < F" for F :: real
      using that by (simp add: clamp_def)
    from this [OF F] show ?thesis .
  qed
  finally show ?thesis .
qed

theorem pointer_on_edge_counterexample:
  "mouseY env_edge \<noteq> 0
   \<and> vec_x (deref (calculateGravity settings (position particle0)
         (fst (mouseVector env_edge (heap (sketch_of \<lparr>vec_x = 0, vec_y = 0\<rparr> \<lparr>vec_x = 0, vec_y = 0\<rparr> \<lparr>vec_x = 0, vec_y = 0\<rparr>))))
         (snd (mouseVector env_edge (heap (sketch_of \<lparr>vec_x = 0, vec_y = 0\<rparr> \<lparr>vec_x = 0, vec_y = 0\<rparr> \<lparr>vec_x = 0, vec_y = 0\<rparr>)))))) < 0
   \<and> cells (heap (draw settings env_edge
         (sketch_of \<lparr>vec_x = 0, vec_y = 0\<rparr> \<lparr>vec_x = 0, vec_y = 0\<rparr> \<lparr>vec_x = 0, vec_y = 0\<rparr>)))
        (velocity particle0) = \<lparr>vec_x = 0, vec_y = 0\<rparr>"
proof -
  let ?z = "\<lparr>vec_x = 0, vec_y = 0\<rparr>"
  let ?s = "sketch_of ?z ?z ?z"
  let ?h = "heap ?s"
  let ?e = "calculateElasticity settings (position particle0) (anchor particle0) ?h"
  have y: "mouseY env_edge \<noteq> 0" by (simp add: env_edge_def)
  have g: "vec_x (deref (calculateGravity settings (position particle0)
             (fst (mouseVector env_edge ?h)) (snd (mouseVector env_edge ?h)))) < 0"
    by (rule gravity_pulls_left)
       (simp_all add: mouseVector_def env_edge_def sketch_of_def particle0_def)
  have ez: "deref ?e = ?z"
    by (rule calculateElasticity_zero) (simp add: sketch_of_simps)
  have vel: "cells (snd ?e) (velocity particle0) = ?z"
    by (simp add: sketch_of_def particle0_def)
  have "draw settings env_edge ?s
      = show_entity settings particle0 (?s\<lparr>canvas := [], heap :=
          applyVelocity particle0 (applyAnchorDamping particle0
            (applyForce particle0 (fst ?e) (snd ?e)))\<rparr>)"
    by (simp add: draw_def sketch_of_simps drawEntity_absent env_edge_def)
  then have "cells (heap (draw settings env_edge ?s)) (velocity particle0)
      = cells (applyAnchorDamping particle0 (applyForce particle0 (fst ?e) (snd ?e))) (velocity particle0)"
    by (simp add: show_entity_frame applyVelocity_frame particle0_def)
  also have "\<dots> = ?z"
    using ez vel by (simp add: applyAnchorDamping_velocity applyForce_velocity deref_def)
  finally show ?thesis using y g by blast
qed

end
